theory Spec2Isabelle
  imports Complex_Main "HOL-Library.Log_Nat" "HOL-Library.Monad_Syntax"
begin

section \<open>Python values\<close>

subsection \<open>Floats\<close>

text \<open>
  A Python \<open>float\<close> is an IEEE 754 binary64 number. A finite float is represented by the
  rational number it denotes, the two infinities and NaN by constructors of their own.
  The two zeros are identified: \<open>-0.0 == 0.0\<close> holds in Python, and no operation of the
  handlers tells them apart. HOL equality on \<open>pyfloat\<close> is identity of the value; Python's
  \<open>==\<close> differs from it on NaN only, which is not equal to itself.
\<close>

datatype pyfloat = Fin rat | PosInf | NegInf | NaN

definition pow2 :: "int \<Rightarrow> rat" where
  "pow2 e = (if 0 \<le> e then 2 ^ nat e else 1 / 2 ^ nat (- e))"

text \<open>\<open>ilog2 a\<close> is the exponent \<open>e\<close> with \<open>2^e \<le> a < 2^(e+1)\<close>, for \<open>a > 0\<close>.\<close>

definition ilog2 :: "rat \<Rightarrow> int" where
  "ilog2 a = (let (n, d) = quotient_of a; e0 = bitlen n - bitlen d
              in if pow2 e0 \<le> a then e0 else e0 - 1)"

text \<open>Rounding to the nearest integer, ties to the even one.\<close>

definition round_even :: "rat \<Rightarrow> int" where
  "round_even q = (let f = \<lfloor>q\<rfloor>; d = q - of_int f
                   in if d < 1 / 2 then f else if 1 / 2 < d then f + 1
                      else if even f then f else f + 1)"

text \<open>
  Rounding a rational to binary64, round-to-nearest-even: 53 significant bits, the smallest
  exponent \<open>-1022\<close> (below it the spacing stays \<open>2^-1074\<close>: subnormal numbers), and
  overflow to an infinity when the rounded value reaches \<open>2^1024\<close>.
\<close>

definition round_f64 :: "rat \<Rightarrow> pyfloat" where
  "round_f64 q = (if q = 0 then Fin 0 else
     let a = \<bar>q\<bar>; e = max (ilog2 a) (- 1022); u = pow2 (e - 52);
         r = of_int (round_even (a / u)) * u
     in if pow2 1024 \<le> r then (if 0 < q then PosInf else NegInf)
        else Fin (if 0 < q then r else - r))"

text \<open>The floats that are binary64 values: the fixed points of the rounding.\<close>

fun is_f64 :: "pyfloat \<Rightarrow> bool" where
  "is_f64 (Fin q) = (round_f64 q = Fin q)"
| "is_f64 _ = True"

text \<open>A decimal literal of the source, such as \<open>12.90\<close>, denotes the nearest float.\<close>

definition float_lit :: "rat \<Rightarrow> pyfloat" where
  "float_lit q = round_f64 q"

text \<open>\<open>x * y\<close> on floats.\<close>

fun py_mul :: "pyfloat \<Rightarrow> pyfloat \<Rightarrow> pyfloat" where
  "py_mul NaN _ = NaN"
| "py_mul _ NaN = NaN"
| "py_mul (Fin a) (Fin b) = round_f64 (a * b)"
| "py_mul (Fin a) PosInf = (if a = 0 then NaN else if 0 < a then PosInf else NegInf)"
| "py_mul (Fin a) NegInf = (if a = 0 then NaN else if 0 < a then NegInf else PosInf)"
| "py_mul PosInf (Fin b) = (if b = 0 then NaN else if 0 < b then PosInf else NegInf)"
| "py_mul NegInf (Fin b) = (if b = 0 then NaN else if 0 < b then NegInf else PosInf)"
| "py_mul PosInf PosInf = PosInf"
| "py_mul PosInf NegInf = NegInf"
| "py_mul NegInf PosInf = NegInf"
| "py_mul NegInf NegInf = PosInf"

text \<open>\<open>x + y\<close> on floats.\<close>

fun py_add :: "pyfloat \<Rightarrow> pyfloat \<Rightarrow> pyfloat" where
  "py_add NaN _ = NaN"
| "py_add _ NaN = NaN"
| "py_add (Fin a) (Fin b) = round_f64 (a + b)"
| "py_add (Fin a) PosInf = PosInf"
| "py_add (Fin a) NegInf = NegInf"
| "py_add PosInf (Fin b) = PosInf"
| "py_add NegInf (Fin b) = NegInf"
| "py_add PosInf PosInf = PosInf"
| "py_add PosInf NegInf = NaN"
| "py_add NegInf PosInf = NaN"
| "py_add NegInf NegInf = NegInf"

text \<open>\<open>-x\<close> and \<open>x - y\<close> on floats; subtracting is adding the negation.\<close>

fun py_neg :: "pyfloat \<Rightarrow> pyfloat" where
  "py_neg (Fin a) = Fin (- a)"
| "py_neg PosInf = NegInf"
| "py_neg NegInf = PosInf"
| "py_neg NaN = NaN"

definition py_sub :: "pyfloat \<Rightarrow> pyfloat \<Rightarrow> pyfloat" where
  "py_sub x y = py_add x (py_neg y)"

text \<open>\<open>fabs(x) >= fabs(y)\<close>: false when either is NaN.\<close>

fun py_abs_ge :: "pyfloat \<Rightarrow> pyfloat \<Rightarrow> bool" where
  "py_abs_ge NaN _ = False"
| "py_abs_ge _ NaN = False"
| "py_abs_ge (Fin a) (Fin b) = (\<bar>b\<bar> \<le> \<bar>a\<bar>)"
| "py_abs_ge (Fin a) _ = False"
| "py_abs_ge _ _ = True"

text \<open>\<open>isfinite(x)\<close>, and \<open>x >= 0\<close>.\<close>

fun is_finite :: "pyfloat \<Rightarrow> bool" where
  "is_finite (Fin a) = True"
| "is_finite _ = False"

fun float_ge0 :: "pyfloat \<Rightarrow> bool" where
  "float_ge0 (Fin a) = (0 \<le> a)"
| "float_ge0 PosInf = True"
| "float_ge0 _ = False"

subsection \<open>Exceptions\<close>

text \<open>
  The exceptions that the handlers raise or meet. All of them are subclasses of
  \<open>Exception\<close>, so \<open>except Exception\<close> catches every value of this type.
  \<open>RequestValidationError\<close> is the framework's rejection of a request body (status 422),
  \<open>ResponseValidationError\<close> its rejection of a handler's result that does not fit the
  response model (status 500, as every exception that leaves a route but the first two);
  \<open>Exception msg\<close> stands for any other exception raised by the store collaborator.
\<close>

datatype pyexn =
    HTTPException int string
  | TypeError
  | ValueError
  | OverflowError
  | RequestValidationError
  | ResponseValidationError
  | Exception string

text \<open>
  Converting an \<open>int\<close> to a float (implicitly in \<open>float * int\<close>, explicitly in
  \<open>float(n)\<close>) rounds to nearest and raises \<open>OverflowError\<close> when the result is not finite.
\<close>

definition float_of_int :: "int \<Rightarrow> pyexn + pyfloat" where
  "float_of_int n = (case round_f64 (of_int n) of
                       Fin q \<Rightarrow> Inr (Fin q)
                     | _ \<Rightarrow> Inl OverflowError)"

subsection \<open>Dynamically typed values and dictionaries\<close>

text \<open>
  The values found in a decoded JSON body and in a document of the store. \<open>PObject\<close> is an
  opaque object, such as an \<open>ObjectId\<close>, that has no conversion to a number and no
  encoding in JSON.
  A \<open>dict\<close> is an association list in insertion order with distinct keys.
\<close>

datatype pyval =
    PNone
  | PBool bool
  | PInt int
  | PFloat pyfloat
  | PStr string
  | PList "pyval list"
  | PDict "(string \<times> pyval) list"
  | PObject string

type_synonym pydict = "(string \<times> pyval) list"

text \<open>\<open>d.get(k)\<close> and \<open>d.get(k, default)\<close>.\<close>

definition dict_get :: "pydict \<Rightarrow> string \<Rightarrow> pyval" where
  "dict_get d k = (case map_of d k of None \<Rightarrow> PNone | Some v \<Rightarrow> v)"

definition dict_get_default :: "pydict \<Rightarrow> string \<Rightarrow> pyval \<Rightarrow> pyval" where
  "dict_get_default d k dflt = (case map_of d k of None \<Rightarrow> dflt | Some v \<Rightarrow> v)"

text \<open>\<open>d[k] = v\<close>: an existing key keeps its position, a new key goes last.\<close>

fun dict_set :: "pydict \<Rightarrow> string \<Rightarrow> pyval \<Rightarrow> pydict" where
  "dict_set [] k v = [(k, v)]"
| "dict_set ((k', v') # d) k v = (if k' = k then (k, v) # d else (k', v') # dict_set d k v)"

section \<open>The schemas (schemas.py)\<close>

record AroniaProduct =
  title :: string
  description :: string
  price :: pyfloat
  category :: string
  in_stock :: bool
  image_url :: "string option"
  sku :: string
  volume_ml :: int

record OrderItem =
  product_sku :: string
  title :: string
  unit_price :: pyfloat
  quantity :: int

text \<open>The field \<open>notes\<close> is named \<open>order_notes\<close>: \<open>notes\<close> is a keyword of Isabelle.\<close>

record Order =
  customer_name :: string
  customer_email :: string
  shipping_address :: string
  items :: "OrderItem list"
  order_notes :: "string option"

text \<open>\<open>model_dump()\<close>: the fields of a model as a dictionary, in declaration order.\<close>

definition opt_str :: "string option \<Rightarrow> pyval" where
  "opt_str s = (case s of None \<Rightarrow> PNone | Some t \<Rightarrow> PStr t)"

definition item_dump :: "OrderItem \<Rightarrow> pydict" where
  "item_dump i =
     [(''product_sku'', PStr (product_sku i)),
      (''title'', PStr (OrderItem.title i)),
      (''unit_price'', PFloat (unit_price i)),
      (''quantity'', PInt (quantity i))]"

definition order_dump :: "Order \<Rightarrow> pydict" where
  "order_dump order =
     [(''customer_name'', PStr (customer_name order)),
      (''customer_email'', PStr (customer_email order)),
      (''shipping_address'', PStr (shipping_address order)),
      (''items'', PList (map (\<lambda>i. PDict (item_dump i)) (items order))),
      (''notes'', opt_str (order_notes order))]"

text \<open>\<open>AroniaProduct()\<close>: every field takes its declared default.\<close>

definition AroniaProduct_default :: AroniaProduct where
  "AroniaProduct_default =
     \<lparr>AroniaProduct.title = ''Aronia Pure - 100% Chokeberry Juice'',
      description = ''Cold-pressed from fresh aronia berries, unfiltered to retain natural goodness. Tart, rich, and invigorating.'',
      price = float_lit (129 / 10),
      category = ''Beverages'',
      in_stock = True,
      image_url = Some ''https://images.unsplash.com/photo-1626595424320-b872d5efaa11?auto=format&fit=crop&w=1600&q=80'',
      sku = ''ARONIA-750ML'',
      volume_ml = 750\<rparr>"

definition product_dump :: "AroniaProduct \<Rightarrow> pydict" where
  "product_dump p =
     [(''title'', PStr (AroniaProduct.title p)),
      (''description'', PStr (description p)),
      (''price'', PFloat (price p)),
      (''category'', PStr (category p)),
      (''in_stock'', PBool (in_stock p)),
      (''image_url'', opt_str (image_url p)),
      (''sku'', PStr (sku p)),
      (''volume_ml'', PInt (volume_ml p))]"

subsection \<open>Validation of a request body against the schemas\<close>

text \<open>
  The validation library is not part of the repository. Its validators of single values
  (which values pass as a \<open>str\<close>, a \<open>float\<close>, an \<open>int\<close>, a \<open>bool\<close>, an \<open>EmailStr\<close>, and
  what they are converted to) are parameters. What the schemas declare is modelled here: which
  fields are required, the defaults, the bounds, and that a key the schema does not
  declare is ignored.
\<close>

record validators =
  as_str :: "pyval \<Rightarrow> string option"
  as_float :: "pyval \<Rightarrow> pyfloat option"
  as_int :: "pyval \<Rightarrow> int option"
  as_bool :: "pyval \<Rightarrow> bool option"
  as_email :: "pyval \<Rightarrow> string option"

text \<open>A required field (\<open>Field(...)\<close> or no default): the key must be present.\<close>

definition required :: "(pyval \<Rightarrow> 'a option) \<Rightarrow> pydict \<Rightarrow> string \<Rightarrow> 'a option" where
  "required conv d k = (case map_of d k of None \<Rightarrow> None | Some v \<Rightarrow> conv v)"

text \<open>\<open>quantity: int = Field(1, ge=1, le=24)\<close>.\<close>

definition quantity_field :: "validators \<Rightarrow> pydict \<Rightarrow> int option" where
  "quantity_field lib d =
     (case map_of d ''quantity'' of
        None \<Rightarrow> Some 1
      | Some v \<Rightarrow> (case as_int lib v of
                    None \<Rightarrow> None
                  | Some n \<Rightarrow> if 1 \<le> n \<and> n \<le> 24 then Some n else None))"

definition validate_item :: "validators \<Rightarrow> pyval \<Rightarrow> OrderItem option" where
  "validate_item lib v =
     (case v of
        PDict d \<Rightarrow>
          (case (required (as_str lib) d ''product_sku'', required (as_str lib) d ''title'',
                 required (as_float lib) d ''unit_price'', quantity_field lib d) of
             (Some a, Some b, Some p, Some n) \<Rightarrow>
               Some \<lparr>product_sku = a, title = b, unit_price = p, quantity = n\<rparr>
           | _ \<Rightarrow> None)
      | _ \<Rightarrow> None)"

text \<open>\<open>items: List[OrderItem]\<close>: a list, every element of which validates.\<close>

definition validate_items :: "validators \<Rightarrow> pyval \<Rightarrow> OrderItem list option" where
  "validate_items lib v =
     (case v of PList vs \<Rightarrow> those (map (validate_item lib) vs) | _ \<Rightarrow> None)"

text \<open>\<open>notes: Optional[str] = None\<close>.\<close>

definition notes_field :: "validators \<Rightarrow> pydict \<Rightarrow> string option option" where
  "notes_field lib d =
     (case map_of d ''notes'' of
        None \<Rightarrow> Some None
      | Some PNone \<Rightarrow> Some None
      | Some v \<Rightarrow> (case as_str lib v of None \<Rightarrow> None | Some t \<Rightarrow> Some (Some t)))"

definition validate_order :: "validators \<Rightarrow> pyval \<Rightarrow> pyexn + Order" where
  "validate_order lib body =
     (case body of
        PDict d \<Rightarrow>
          (case (required (as_str lib) d ''customer_name'',
                 required (as_email lib) d ''customer_email'',
                 required (as_str lib) d ''shipping_address'',
                 required (validate_items lib) d ''items'', notes_field lib d) of
             (Some a, Some b, Some c, Some its, Some nt) \<Rightarrow>
               Inr \<lparr>customer_name = a, customer_email = b, shipping_address = c,
                    items = its, order_notes = nt\<rparr>
           | _ \<Rightarrow> Inl RequestValidationError)
      | _ \<Rightarrow> Inl RequestValidationError)"

text \<open>
  A field with a default: an absent key gives the default. \<open>Optional[str]\<close> takes \<open>None\<close>
  as well as a string.
\<close>

definition with_default :: "(pyval \<Rightarrow> 'a option) \<Rightarrow> pydict \<Rightarrow> string \<Rightarrow> 'a \<Rightarrow> 'a option" where
  "with_default conv d k dflt = (case map_of d k of None \<Rightarrow> Some dflt | Some v \<Rightarrow> conv v)"

definition optional_str :: "validators \<Rightarrow> pyval \<Rightarrow> string option option" where
  "optional_str lib v =
     (case v of PNone \<Rightarrow> Some None
      | _ \<Rightarrow> (case as_str lib v of None \<Rightarrow> None | Some t \<Rightarrow> Some (Some t)))"

text \<open>
  Validation of a dictionary against \<open>AroniaProduct\<close>: the eight fields with their types,
  \<open>price\<close> with \<open>ge=0\<close> and \<open>volume_ml\<close> with \<open>ge=50\<close>.
\<close>

definition validate_product :: "validators \<Rightarrow> pydict \<Rightarrow> AroniaProduct option" where
  "validate_product lib d =
     do {
       a \<leftarrow> with_default (as_str lib) d ''title'' (AroniaProduct.title AroniaProduct_default);
       b \<leftarrow> with_default (as_str lib) d ''description'' (description AroniaProduct_default);
       x \<leftarrow> with_default (as_float lib) d ''price'' (price AroniaProduct_default);
       c \<leftarrow> with_default (as_str lib) d ''category'' (category AroniaProduct_default);
       st \<leftarrow> with_default (as_bool lib) d ''in_stock'' (in_stock AroniaProduct_default);
       u \<leftarrow> with_default (optional_str lib) d ''image_url'' (image_url AroniaProduct_default);
       k \<leftarrow> with_default (as_str lib) d ''sku'' (sku AroniaProduct_default);
       n \<leftarrow> with_default (as_int lib) d ''volume_ml'' (volume_ml AroniaProduct_default);
       if float_ge0 x \<and> 50 \<le> n
       then Some \<lparr>AroniaProduct.title = a, description = b, price = x, category = c,
                  in_stock = st, image_url = u, sku = k, volume_ml = n\<rparr>
       else None
     }"

text \<open>
  A sample validation library, for evaluating the model on concrete bodies: it accepts
  the values that have the declared type already (and an int as a float), and as an
  email address a string with one \<open>@\<close> between two non-empty parts.
\<close>

definition simple_email :: "string \<Rightarrow> bool" where
  "simple_email t =
     (let l = takeWhile (\<lambda>c. c \<noteq> CHR ''@'') t; r = drop (length l) t
      in l \<noteq> [] \<and> 1 < length r \<and> CHR ''@'' \<notin> set (tl r))"

definition strict_validators :: validators where
  "strict_validators =
     \<lparr>as_str = (\<lambda>v. case v of PStr t \<Rightarrow> Some t | _ \<Rightarrow> None),
      as_float = (\<lambda>v. case v of
                        PFloat x \<Rightarrow> Some x
                      | PInt n \<Rightarrow> (case float_of_int n of Inr x \<Rightarrow> Some x | Inl e \<Rightarrow> None)
                      | _ \<Rightarrow> None),
      as_int = (\<lambda>v. case v of PInt n \<Rightarrow> Some n | _ \<Rightarrow> None),
      as_bool = (\<lambda>v. case v of PBool b \<Rightarrow> Some b | _ \<Rightarrow> None),
      as_email = (\<lambda>v. case v of
                        PStr t \<Rightarrow> if simple_email t then Some t else None
                      | _ \<Rightarrow> None)\<rparr>"

section \<open>The store collaborator (module database)\<close>

text \<open>
  \<open>create_document\<close> and \<open>get_documents\<close> are imported from the collaborator. Nothing is
  assumed of them: each is a parameter, a function of the collaborator's state \<open>'s\<close> that
  returns a result or raises, and leaves a new state.
\<close>

record 's store =
  get_documents :: "string \<Rightarrow> pydict \<Rightarrow> 's \<Rightarrow> (pyexn + pydict list) \<times> 's"
  create_document :: "string \<Rightarrow> pydict \<Rightarrow> 's \<Rightarrow> (pyexn + pyval) \<times> 's"

section \<open>Checkout (main.py, create\_order)\<close>

text \<open>\<open>item.unit_price * item.quantity\<close>: a float times an int.\<close>

definition line_total :: "OrderItem \<Rightarrow> pyexn + pyfloat" where
  "line_total i = (case float_of_int (quantity i) of
                     Inl e \<Rightarrow> Inl e
                   | Inr n \<Rightarrow> Inr (py_mul (unit_price i) n))"

text \<open>
  \<open>sum(...)\<close> over the generator. The accumulator starts at the int \<open>0\<close>; an exception
  raised by a line total ends the loop. How the floats are added depends on the
  interpreter, which the repository does not fix:
  \<^item> before CPython 3.12 the line totals are added from left to right (\<open>sum_from\<close>);
  \<^item> from CPython 3.12 on the first line total is added to \<open>0\<close> and every later one
    by Neumaier's compensated summation (\<open>sum_compensated\<close>): next to the running sum
    \<open>f\<close> a term \<open>c\<close> collects the rounding errors of the additions, and is added at the
    end if it is finite and not zero.
\<close>

datatype interpreter = CPython_before_3_12 | CPython_from_3_12

fun sum_from :: "pyfloat \<Rightarrow> OrderItem list \<Rightarrow> pyexn + pyfloat" where
  "sum_from acc [] = Inr acc"
| "sum_from acc (i # rest) = (case line_total i of
                                Inl e \<Rightarrow> Inl e
                              | Inr x \<Rightarrow> sum_from (py_add acc x) rest)"

fun sum_compensated :: "pyfloat \<Rightarrow> pyfloat \<Rightarrow> OrderItem list \<Rightarrow> pyexn + pyfloat" where
  "sum_compensated f c [] = Inr (if c \<noteq> Fin 0 \<and> is_finite c then py_add f c else f)"
| "sum_compensated f c (i # rest) =
     (case line_total i of
        Inl e \<Rightarrow> Inl e
      | Inr x \<Rightarrow>
          (let t = py_add f x
           in sum_compensated t
                (py_add c (if py_abs_ge f x then py_add (py_sub f t) x
                           else py_add (py_sub x t) f))
                rest))"

fun order_total :: "interpreter \<Rightarrow> OrderItem list \<Rightarrow> pyexn + pyfloat" where
  "order_total CPython_before_3_12 xs = sum_from (Fin 0) xs"
| "order_total CPython_from_3_12 [] = Inr (Fin 0)"
| "order_total CPython_from_3_12 (i # rest) =
     (case line_total i of
        Inl e \<Rightarrow> Inl e
      | Inr x \<Rightarrow> sum_compensated (py_add (Fin 0) x) (Fin 0) rest)"

definition create_order ::
  "interpreter \<Rightarrow> 's store \<Rightarrow> Order \<Rightarrow> 's \<Rightarrow> (pyexn + pydict) \<times> 's" where
  "create_order py db order s =
     (if items order = [] then
        (Inl (HTTPException 400 ''Order must contain at least one item''), s)
      else
        case order_total py (items order) of
          Inl e \<Rightarrow> (Inl e, s)
        | Inr tot \<Rightarrow>
            (let payload = dict_set (order_dump order) ''total_amount'' (PFloat tot)
             in (case create_document db ''order'' payload s of
                   (Inr order_id, s') \<Rightarrow>
                     (Inr [(''status'', PStr ''ok''), (''order_id'', order_id),
                           (''total_amount'', PFloat tot)], s')
                 | (Inl e, s') \<Rightarrow>
                     (Inr [(''status'', PStr ''ok''), (''order_id'', PNone),
                           (''total_amount'', PFloat tot)], s'))))"

text \<open>
  What the framework can send as JSON: no float that is infinite or NaN, no opaque
  object. A response that holds one makes the encoder raise, and the route answers 500.
\<close>

fun json_encodable :: "pyval \<Rightarrow> bool" where
  "json_encodable (PFloat x) = is_finite x"
| "json_encodable (PObject t) = False"
| "json_encodable (PList vs) = list_all json_encodable vs"
| "json_encodable (PDict d) = list_all (\<lambda>kv. json_encodable (snd kv)) d"
| "json_encodable _ = True"

text \<open>
  \<open>POST /api/checkout\<close>: the framework validates the decoded body against \<open>Order\<close>, calls
  the handler with the result, and encodes what the handler returns. A body that fails
  validation never reaches the handler.
\<close>

definition post_checkout ::
  "validators \<Rightarrow> interpreter \<Rightarrow> 's store \<Rightarrow> pyval \<Rightarrow> 's \<Rightarrow> (pyexn + pydict) \<times> 's" where
  "post_checkout lib py db body s =
     (case validate_order lib body of
        Inl e \<Rightarrow> (Inl e, s)
      | Inr order \<Rightarrow>
          (case create_order py db order s of
             (Inl e, s') \<Rightarrow> (Inl e, s')
           | (Inr response, s') \<Rightarrow>
               if json_encodable (PDict response) then (Inr response, s')
               else (Inl ValueError, s')))"

section \<open>The catalog (main.py, list\_products)\<close>

text \<open>
  The built-in conversions \<open>float(v)\<close>, \<open>int(v)\<close> and \<open>bool(v)\<close> on a value read from a
  document. How a string is parsed as a number is a parameter (\<open>None\<close>: the string is not
  a number, and the conversion raises \<open>ValueError\<close>).
\<close>

record builtins =
  float_of_str :: "string \<Rightarrow> pyfloat option"
  int_of_str :: "string \<Rightarrow> int option"

definition py_float :: "builtins \<Rightarrow> pyval \<Rightarrow> pyexn + pyfloat" where
  "py_float bi v =
     (case v of
        PFloat x \<Rightarrow> Inr x
      | PInt n \<Rightarrow> float_of_int n
      | PBool b \<Rightarrow> Inr (Fin (if b then 1 else 0))
      | PStr t \<Rightarrow> (case float_of_str bi t of None \<Rightarrow> Inl ValueError | Some x \<Rightarrow> Inr x)
      | _ \<Rightarrow> Inl TypeError)"

text \<open>\<open>int(x)\<close> of a float truncates towards zero.\<close>

definition trunc :: "rat \<Rightarrow> int" where
  "trunc q = (if 0 \<le> q then \<lfloor>q\<rfloor> else - \<lfloor>- q\<rfloor>)"

definition py_int :: "builtins \<Rightarrow> pyval \<Rightarrow> pyexn + int" where
  "py_int bi v =
     (case v of
        PInt n \<Rightarrow> Inr n
      | PBool b \<Rightarrow> Inr (if b then 1 else 0)
      | PFloat x \<Rightarrow> (case x of
                       Fin q \<Rightarrow> Inr (trunc q)
                     | NaN \<Rightarrow> Inl ValueError
                     | _ \<Rightarrow> Inl OverflowError)
      | PStr t \<Rightarrow> (case int_of_str bi t of None \<Rightarrow> Inl ValueError | Some n \<Rightarrow> Inr n)
      | _ \<Rightarrow> Inl TypeError)"

definition py_bool :: "pyval \<Rightarrow> bool" where
  "py_bool v =
     (case v of
        PNone \<Rightarrow> False
      | PBool b \<Rightarrow> b
      | PInt n \<Rightarrow> n \<noteq> 0
      | PFloat x \<Rightarrow> x \<noteq> Fin 0
      | PStr t \<Rightarrow> t \<noteq> []
      | PList vs \<Rightarrow> vs \<noteq> []
      | PDict d \<Rightarrow> d \<noteq> []
      | PObject t \<Rightarrow> True)"

text \<open>
  The dictionary built for one document \<open>i\<close> of the store. Its entries are evaluated in
  the order written, so a failing \<open>float(...)\<close> raises before \<open>int(...)\<close> is tried.
\<close>

definition normalize_product :: "builtins \<Rightarrow> pydict \<Rightarrow> pyexn + pydict" where
  "normalize_product bi i =
     (case py_float bi (dict_get_default i ''price'' (PInt 0)) of
        Inl e \<Rightarrow> Inl e
      | Inr p \<Rightarrow>
          (case py_int bi (dict_get_default i ''volume_ml'' (PInt 750)) of
             Inl e \<Rightarrow> Inl e
           | Inr v \<Rightarrow>
               Inr [(''title'', dict_get i ''title''),
                    (''description'', dict_get i ''description''),
                    (''price'', PFloat p),
                    (''category'', dict_get i ''category''),
                    (''in_stock'', PBool (py_bool (dict_get_default i ''in_stock'' (PBool True)))),
                    (''image_url'', dict_get i ''image_url''),
                    (''sku'', dict_get i ''sku''),
                    (''volume_ml'', PInt v)]))"

text \<open>The list comprehension: the first document that raises ends it.\<close>

fun normalize_all :: "builtins \<Rightarrow> pydict list \<Rightarrow> pyexn + pydict list" where
  "normalize_all bi [] = Inr []"
| "normalize_all bi (i # rest) =
     (case normalize_product bi i of
        Inl e \<Rightarrow> Inl e
      | Inr p \<Rightarrow> (case normalize_all bi rest of
                    Inl e \<Rightarrow> Inl e
                  | Inr ps \<Rightarrow> Inr (p # ps)))"

text \<open>
  The handler. A failing query leaves \<open>items\<close> empty. The default product is handed to
  \<open>create_document\<close> as its dictionary; both branches of the \<open>try\<close> around the insert
  return the same list.
\<close>

definition list_products :: "builtins \<Rightarrow> 's store \<Rightarrow> 's \<Rightarrow> (pyexn + pydict list) \<times> 's" where
  "list_products bi db s =
     (let (r, s1) = get_documents db ''aroniaproduct'' [] s;
          docs = (case r of Inl e \<Rightarrow> [] | Inr ds \<Rightarrow> ds)
      in if docs = [] then
           let dflt = AroniaProduct_default
           in (case create_document db ''aroniaproduct'' (product_dump dflt) s1 of
                 (Inr new_id, s2) \<Rightarrow> (Inr [product_dump dflt], s2)
               | (Inl e, s2) \<Rightarrow> (Inr [product_dump dflt], s2))
         else
           (case normalize_all bi docs of
              Inl e \<Rightarrow> (Inl e, s1)
            | Inr ps \<Rightarrow> (Inr ps, s1)))"

text \<open>
  \<open>GET /api/products\<close>, declared with \<open>response_model=List[AroniaProduct]\<close>: the framework
  validates every dictionary that the handler returns against \<open>AroniaProduct\<close> and
  encodes the validated products. A result that does not validate, or holds a price
  that is not finite, is answered with status 500.
\<close>

definition get_products ::
  "validators \<Rightarrow> builtins \<Rightarrow> 's store \<Rightarrow> 's \<Rightarrow> (pyexn + pydict list) \<times> 's" where
  "get_products lib bi db s =
     (case list_products bi db s of
        (Inl e, s') \<Rightarrow> (Inl e, s')
      | (Inr ps, s') \<Rightarrow>
          (case those (map (validate_product lib) ps) of
             None \<Rightarrow> (Inl ResponseValidationError, s')
           | Some ms \<Rightarrow>
               if list_all (\<lambda>m. is_finite (price m)) ms
               then (Inr (map product_dump ms), s')
               else (Inl ValueError, s')))"

section \<open>The specification's total, and sample inputs\<close>

text \<open>
  The float that the handler computes as total for an order none of whose lines raises
  (NaN stands in for the order that has such a line; validation excludes it).
\<close>

definition float_total :: "interpreter \<Rightarrow> OrderItem list \<Rightarrow> pyfloat" where
  "float_total py xs = (case order_total py xs of Inl e \<Rightarrow> NaN | Inr t \<Rightarrow> t)"

text \<open>
  The total as the specification words it: the exact sum, as numbers, of unit price
  times quantity over the items.
\<close>

fun float_value :: "pyfloat \<Rightarrow> rat" where
  "float_value (Fin a) = a"
| "float_value _ = 0"

definition exact_sum :: "OrderItem list \<Rightarrow> rat" where
  "exact_sum xs = sum_list (map (\<lambda>i. float_value (unit_price i) * of_int (quantity i)) xs)"

text \<open>
  No rounding occurs in adding up the items \<open>xs\<close> onto \<open>acc\<close>: every unit price is finite,
  and every product of unit price and quantity and every partial sum is a binary64
  number.
\<close>

fun no_rounding :: "rat \<Rightarrow> OrderItem list \<Rightarrow> bool" where
  "no_rounding acc [] = True"
| "no_rounding acc (i # rest) =
     (case unit_price i of
        Fin a \<Rightarrow> is_f64 (Fin (a * of_int (quantity i))) \<and>
                 is_f64 (Fin (acc + a * of_int (quantity i))) \<and>
                 no_rounding (acc + a * of_int (quantity i)) rest
      | _ \<Rightarrow> False)"

text \<open>
  The validation library takes a value that has the declared type already as it is.
\<close>

definition accepts_typed :: "validators \<Rightarrow> bool" where
  "accepts_typed lib =
     ((\<forall>t. as_str lib (PStr t) = Some t) \<and> (\<forall>x. as_float lib (PFloat x) = Some x) \<and>
      (\<forall>n. as_int lib (PInt n) = Some n) \<and> (\<forall>b. as_bool lib (PBool b) = Some b))"

text \<open>
  Two sample collaborators, for evaluating the handlers: a store in memory, whose state
  is the list of the documents inserted with their collections, and a store that is
  unreachable, whose every call raises.
\<close>

definition memory_store :: "(string \<times> pydict) list store" where
  "memory_store =
     \<lparr>get_documents = (\<lambda>c f s. (Inr (map snd (filter (\<lambda>cd. fst cd = c) s)), s)),
      create_document = (\<lambda>c d s. (Inr (PStr (''doc-'' @ c)), s @ [(c, d)]))\<rparr>"

definition failing_store :: "unit store" where
  "failing_store =
     \<lparr>get_documents = (\<lambda>c f s. (Inl (Exception ''store unreachable''), s)),
      create_document = (\<lambda>c d s. (Inl (Exception ''store unreachable''), s))\<rparr>"

text \<open>Sample built-ins that take no string for a number.\<close>

definition no_parse :: builtins where
  "no_parse = \<lparr>float_of_str = (\<lambda>t. None), int_of_str = (\<lambda>t. None)\<rparr>"

text \<open>The order of the specification's example: 12.90 twice and 5.00 once.\<close>

definition example_items :: "OrderItem list" where
  "example_items =
     [\<lparr>product_sku = ''ARONIA-750ML'', title = ''Aronia Pure'',
       unit_price = float_lit (129 / 10), quantity = 2\<rparr>,
      \<lparr>product_sku = ''ARONIA-SHOT'', title = ''Aronia Shot'',
       unit_price = float_lit 5, quantity = 1\<rparr>]"

definition example_order :: Order where
  "example_order =
     \<lparr>customer_name = ''Ada'', customer_email = ''ada@example.org'',
      shipping_address = ''1 Main Street'', items = example_items, order_notes = None\<rparr>"

text \<open>The same order as a decoded request body.\<close>

definition example_body :: pydict where
  "example_body =
     [(''customer_name'', PStr ''Ada''),
      (''customer_email'', PStr ''ada@example.org''),
      (''shipping_address'', PStr ''1 Main Street''),
      (''items'', PList
         [PDict [(''product_sku'', PStr ''ARONIA-750ML''), (''title'', PStr ''Aronia Pure''),
                 (''unit_price'', PFloat (float_lit (129 / 10))), (''quantity'', PInt 2)],
          PDict [(''product_sku'', PStr ''ARONIA-SHOT''), (''title'', PStr ''Aronia Shot''),
                 (''unit_price'', PFloat (float_lit 5)), (''quantity'', PInt 1)]])]"

text \<open>One item at 0.10, three times.\<close>

definition tenth_items :: "OrderItem list" where
  "tenth_items =
     [\<lparr>product_sku = ''SAMPLE'', title = ''Sample'',
       unit_price = float_lit (1 / 10), quantity = 3\<rparr>]"


definition three_items :: "OrderItem list" where
  "three_items =
     [\<lparr>product_sku = ''A'', title = ''A'', unit_price = float_lit (1 / 10), quantity = 1\<rparr>,
      \<lparr>product_sku = ''B'', title = ''B'', unit_price = float_lit (1 / 5), quantity = 1\<rparr>,
      \<lparr>product_sku = ''C'', title = ''C'', unit_price = float_lit (3 / 10), quantity = 1\<rparr>]"

text \<open>A body whose only item has a negative unit price.\<close>

definition negative_price_body :: pydict where
  "negative_price_body =
     [(''customer_name'', PStr ''Ada''),
      (''customer_email'', PStr ''ada@example.org''),
      (''shipping_address'', PStr ''1 Main Street''),
      (''items'', PList
         [PDict [(''product_sku'', PStr ''ARONIA-750ML''), (''title'', PStr ''Aronia Pure''),
                 (''unit_price'', PFloat (Fin (- 5))), (''quantity'', PInt 1)]])]"

text \<open>The example order placed by another customer, with a note.\<close>

definition example_body_bob :: pydict where
  "example_body_bob =
     dict_set (dict_set example_body ''customer_name'' (PStr ''Bob'')) ''notes''
       (PStr ''ring twice'')"

definition example_order_bob :: Order where
  "example_order_bob = example_order\<lparr>customer_name := ''Bob'', order_notes := Some ''ring twice''\<rparr>"

text \<open>An item of a request body that has no \<open>quantity\<close>.\<close>

definition item_without_quantity :: pydict where
  "item_without_quantity =
     [(''product_sku'', PStr ''ARONIA-750ML''), (''title'', PStr ''Aronia Pure''),
      (''unit_price'', PFloat (float_lit (129 / 10)))]"

section \<open>The canonical product shape, and sample documents\<close>

text \<open>
  The canonical shape as the specification words it, which is what \<open>AroniaProduct\<close>
  declares: the eight keys in order, strings for title, description, category and sku,
  a string or null for the image, a finite price that is not negative, a bool for the
  stock flag, an int of at least 50 for the volume.
\<close>

fun is_str :: "pyval \<Rightarrow> bool" where
  "is_str (PStr t) = True"
| "is_str _ = False"

fun is_str_or_none :: "pyval \<Rightarrow> bool" where
  "is_str_or_none (PStr t) = True"
| "is_str_or_none PNone = True"
| "is_str_or_none _ = False"

definition canonical_shape :: "pydict \<Rightarrow> bool" where
  "canonical_shape p =
     (map fst p = [''title'', ''description'', ''price'', ''category'', ''in_stock'',
                   ''image_url'', ''sku'', ''volume_ml''] \<and>
      is_str (dict_get p ''title'') \<and> is_str (dict_get p ''description'') \<and>
      is_str (dict_get p ''category'') \<and> is_str (dict_get p ''sku'') \<and>
      is_str_or_none (dict_get p ''image_url'') \<and>
      (case dict_get p ''price'' of PFloat (Fin a) \<Rightarrow> 0 \<le> a | _ \<Rightarrow> False) \<and>
      (case dict_get p ''in_stock'' of PBool b \<Rightarrow> True | _ \<Rightarrow> False) \<and>
      (case dict_get p ''volume_ml'' of PInt n \<Rightarrow> 50 \<le> n | _ \<Rightarrow> False))"

text \<open>
  A document of the store is well formed when it carries strings for title, description,
  category and sku, a string, null or nothing for the image, a price that \<open>float(...)\<close>
  converts to a finite number that is not negative, and a volume that \<open>int(...)\<close>
  converts to at least 50, an absent price, stock flag or volume being allowed
  (they are defaulted before the conversion).

  A product \<open>p\<close> is the coerced form of a document \<open>i\<close> when it has the eight keys in
  order, its price is the float of the document's price, its volume the int of the
  document's volume, its stock flag the truth value of the document's, and its other
  fields are the document's. It is defaulted when an absent price gives 0, an absent
  stock flag true, an absent volume 750.
\<close>

definition well_formed :: "builtins \<Rightarrow> pydict \<Rightarrow> bool" where
  "well_formed bi i =
     (is_str (dict_get i ''title'') \<and> is_str (dict_get i ''description'') \<and>
      is_str (dict_get i ''category'') \<and> is_str (dict_get i ''sku'') \<and>
      is_str_or_none (dict_get i ''image_url'') \<and>
      (case py_float bi (dict_get_default i ''price'' (PInt 0)) of
         Inr (Fin a) \<Rightarrow> 0 \<le> a
       | _ \<Rightarrow> False) \<and>
      (case py_int bi (dict_get_default i ''volume_ml'' (PInt 750)) of
         Inr n \<Rightarrow> 50 \<le> n
       | _ \<Rightarrow> False))"

definition coerced :: "builtins \<Rightarrow> pydict \<Rightarrow> pydict \<Rightarrow> bool" where
  "coerced bi i p =
     (map fst p = [''title'', ''description'', ''price'', ''category'', ''in_stock'',
                   ''image_url'', ''sku'', ''volume_ml''] \<and>
      (case dict_get p ''price'' of
         PFloat x \<Rightarrow> py_float bi (dict_get_default i ''price'' (PInt 0)) = Inr x
       | _ \<Rightarrow> False) \<and>
      (case dict_get p ''volume_ml'' of
         PInt n \<Rightarrow> py_int bi (dict_get_default i ''volume_ml'' (PInt 750)) = Inr n
       | _ \<Rightarrow> False) \<and>
      (case dict_get p ''in_stock'' of
         PBool b \<Rightarrow> b = py_bool (dict_get_default i ''in_stock'' (PBool True))
       | _ \<Rightarrow> False) \<and>
      dict_get p ''title'' = dict_get i ''title'' \<and>
      dict_get p ''description'' = dict_get i ''description'' \<and>
      dict_get p ''category'' = dict_get i ''category'' \<and>
      dict_get p ''image_url'' = dict_get i ''image_url'' \<and>
      dict_get p ''sku'' = dict_get i ''sku'')"

definition defaulted :: "pydict \<Rightarrow> pydict \<Rightarrow> bool" where
  "defaulted i p =
     ((map_of i ''price'' = None \<longrightarrow> dict_get p ''price'' = PFloat (Fin 0)) \<and>
      (map_of i ''in_stock'' = None \<longrightarrow> dict_get p ''in_stock'' = PBool True) \<and>
      (map_of i ''volume_ml'' = None \<longrightarrow> dict_get p ''volume_ml'' = PInt 750))"

text \<open>
  Two well-formed documents as a store may hold them, the first without stock flag,
  image and volume.
\<close>

definition stored_documents :: "pydict list" where
  "stored_documents =
     [[(''_id'', PObject ''ObjectId''), (''title'', PStr ''Aronia Pure''),
       (''description'', PStr ''Cold-pressed''), (''price'', PInt 13),
       (''category'', PStr ''Beverages''), (''sku'', PStr ''ARONIA-750ML'')],
      [(''title'', PStr ''Aronia Shot''), (''description'', PStr ''A small bottle''),
       (''price'', PFloat (Fin 5)), (''category'', PStr ''Beverages''),
       (''in_stock'', PInt 0), (''image_url'', PNone), (''sku'', PStr ''ARONIA-SHOT''),
       (''volume_ml'', PFloat (Fin 250))]]"

text \<open>A document whose price is null, and one whose volume is null.\<close>

definition null_price_document :: pydict where
  "null_price_document = [(''title'', PStr ''Aronia Pure''), (''price'', PNone)]"

definition null_volume_document :: pydict where
  "null_volume_document =
     [(''title'', PStr ''Aronia Pure''), (''price'', PInt 13), (''volume_ml'', PNone)]"

text \<open>The state of the store in memory that holds the two documents.\<close>

definition stored_state :: "(string \<times> pydict) list" where
  "stored_state = map (\<lambda>d. (''aroniaproduct'', d)) stored_documents"

section \<open>Properties of the float model\<close>

lemma pow2_powi: "pow2 e = 2 powi e"
  by (simp add: pow2_def power_int_def inverse_eq_divide power_one_over)

lemma powi_nat: "0 \<le> e \<Longrightarrow> (2::rat) powi e = 2 ^ nat e"
  by (simp add: power_int_def)

lemma bitlen_rat_bounds:
  assumes "0 < n"
  shows "2 powi (bitlen n - 1) \<le> (of_int n :: rat)" and "(of_int n :: rat) < 2 powi (bitlen n)"
proof -
  have b: "2 ^ nat (bitlen n - 1) \<le> n" "n < 2 ^ nat (bitlen n)"
    using bitlen_bounds [OF assms] by auto
  have pos: "1 \<le> bitlen n"
    using assms bitlen_eq_zero_iff [of n] bitlen_nonneg [of n] by linarith
  have "(of_int (2 ^ nat (bitlen n - 1)) :: rat) \<le> of_int n"
    using b(1) by (simp only: of_int_le_iff)
  then show "2 powi (bitlen n - 1) \<le> (of_int n :: rat)"
    using pos by (simp add: powi_nat)
  have "(of_int n :: rat) < of_int (2 ^ nat (bitlen n))"
    using b(2) by (simp only: of_int_less_iff)
  then show "(of_int n :: rat) < 2 powi (bitlen n)"
    using pos by (simp add: powi_nat)
qed

lemma ilog2_bounds:
  assumes "0 < a"
  shows "2 powi (ilog2 a) \<le> a" and "a < 2 powi (ilog2 a + 1)"
proof -
  obtain n d where qd: "quotient_of a = (n, d)" by (cases "quotient_of a")
  have d: "0 < d" using qd by (rule quotient_of_denom_pos)
  have a: "a = of_int n / of_int d" using qd by (rule quotient_of_div)
  have n: "0 < n" using assms d a by (simp add: zero_less_divide_iff)
  define e0 where "e0 = bitlen n - bitlen d"
  have dr: "(0::rat) < of_int d" using d by simp
  have up: "a < 2 powi (e0 + 1)"
  proof -
    have "of_int n < (2::rat) powi (bitlen n)" using bitlen_rat_bounds(2) [OF n] .
    moreover have "(2::rat) powi (bitlen d - 1) \<le> of_int d" using bitlen_rat_bounds(1) [OF d] .
    ultimately have "of_int n * (2::rat) powi (bitlen d - 1) < 2 powi (bitlen n) * of_int d"
      by (intro mult_less_le_imp_less) (use n in auto)
    then have "a * 2 powi (bitlen d - 1) < 2 powi (bitlen n)"
      using dr by (simp add: a field_simps)
    then have "a < 2 powi (bitlen n) / 2 powi (bitlen d - 1)"
      by (simp add: pos_less_divide_eq)
    also have "\<dots> = 2 powi (e0 + 1)"
      by (simp add: e0_def power_int_diff [symmetric] algebra_simps)
    finally show ?thesis .
  qed
  have lo: "2 powi (e0 - 1) \<le> a"
  proof -
    have "(2::rat) powi (bitlen n - 1) \<le> of_int n" using bitlen_rat_bounds(1) [OF n] .
    moreover have "of_int d < (2::rat) powi (bitlen d)" using bitlen_rat_bounds(2) [OF d] .
    ultimately have "(2::rat) powi (bitlen n - 1) * of_int d \<le> of_int n * 2 powi (bitlen d)"
      by (intro mult_mono) (use n d in auto)
    then have "(2::rat) powi (bitlen n - 1) / 2 powi (bitlen d) \<le> a"
      using dr by (simp add: a field_simps)
    moreover have "(2::rat) powi (bitlen n - 1) / 2 powi (bitlen d) = 2 powi (e0 - 1)"
      by (simp add: e0_def power_int_diff [symmetric] algebra_simps)
    ultimately show ?thesis by simp
  qed
  have il: "ilog2 a = (if 2 powi e0 \<le> a then e0 else e0 - 1)"
    by (simp add: ilog2_def qd e0_def pow2_powi Let_def)
  show "2 powi (ilog2 a) \<le> a" using lo by (simp add: il)
  show "a < 2 powi (ilog2 a + 1)" using up by (auto simp: il not_le)
qed

lemma ilog2_unique:
  assumes "0 < a" "2 powi e \<le> a" "a < 2 powi (e + 1)"
  shows "ilog2 a = e"
proof -
  have "2 powi (ilog2 a) < (2::rat) powi (e + 1)"
    using ilog2_bounds(1) [OF assms(1)] assms(3) by simp
  then have 1: "ilog2 a < e + 1"
    by (metis not_le power_int_increasing one_le_numeral)
  have "2 powi e < (2::rat) powi (ilog2 a + 1)"
    using ilog2_bounds(2) [OF assms(1)] assms(2) by simp
  then have 2: "e < ilog2 a + 1"
    by (metis not_le power_int_increasing one_le_numeral)
  from 1 2 show ?thesis by simp
qed

lemma round_even_of_int: "round_even (of_int n) = n"
  by (simp add: round_even_def)


lemma round_f64_exact:
  assumes q: "q = of_int n * 2 powi k" and n: "\<bar>n\<bar> < 2 ^ 53" and k: "- 1074 \<le> k"
    and b: "\<bar>q\<bar> < 2 powi 1024"
  shows "round_f64 q = Fin q"
proof (cases "q = 0")
  case True
  then show ?thesis by (simp add: round_f64_def)
next
  case False
  define a where "a = \<bar>q\<bar>"
  define e where "e = max (ilog2 a) (- 1022)"
  define u :: rat where "u = 2 powi (e - 52)"
  have a_pos: "0 < a" using False by (simp add: a_def)
  have a_eq: "a = of_int \<bar>n\<bar> * 2 powi k"
    by (simp add: a_def q abs_mult)
  have u_pos: "0 < u" by (simp add: u_def)
  have ek: "e \<le> k + 52"
  proof (cases "- 1022 \<le> ilog2 a")
    case True
    have "2 powi (ilog2 a) \<le> a" using ilog2_bounds(1) [OF a_pos] .
    also have "a < 2 ^ 53 * 2 powi k"
    proof -
      have "(of_int \<bar>n\<bar> :: rat) < of_int (2 ^ 53)" using n by (simp only: of_int_less_iff)
      then show ?thesis by (simp add: a_eq)
    qed
    also have "(2::rat) ^ 53 * 2 powi k = 2 powi (53 + k)"
      by (simp add: power_int_add)
    finally have "ilog2 a < 53 + k"
      by (metis not_le power_int_increasing one_le_numeral)
    then show ?thesis using True by (simp add: e_def)
  next
    case False
    then show ?thesis using k by (simp add: e_def)
  qed
  define m where "m = \<bar>n\<bar> * 2 ^ nat (k + 52 - e)"
  have "a / u = of_int \<bar>n\<bar> * (2 powi k / 2 powi (e - 52))"
    by (simp add: a_eq u_def)
  also have "2 powi k / (2::rat) powi (e - 52) = 2 powi (k + 52 - e)"
    by (simp add: power_int_diff [symmetric] algebra_simps)
  also have "\<dots> = 2 ^ nat (k + 52 - e)"
    using ek by (simp add: powi_nat)
  finally have au: "a / u = of_int m" by (simp add: m_def)
  have r: "of_int (round_even (a / u)) * u = a"
    using au u_pos by (simp add: round_even_of_int field_simps)
  have nb: "\<not> pow2 1024 \<le> a" using b by (simp add: a_def pow2_powi not_le)
  have "round_f64 q = Fin (if 0 < q then a else - a)"
    using False r nb
    by (simp add: round_f64_def Let_def a_def [symmetric] e_def [symmetric] pow2_powi
        u_def [symmetric])
  also have "(if 0 < q then a else - a) = q" by (simp add: a_def)
  finally show ?thesis .
qed

lemma float_of_small_int:
  assumes "\<bar>n\<bar> < 2 ^ 53"
  shows "float_of_int n = Inr (Fin (of_int n))"
proof -
  have "\<bar>of_int n :: rat\<bar> < of_int (2 ^ 53)"
    using assms by (simp only: of_int_abs [symmetric] of_int_less_iff)
  also have "(of_int (2 ^ 53) :: rat) \<le> 2 powi 1024"
    by (simp add: power_int_def)
  finally have "round_f64 (of_int n) = Fin (of_int n)"
    using round_f64_exact [of "of_int n" n 0] assms by simp
  then show ?thesis by (simp add: float_of_int_def)
qed


lemma round_even_bounds: "\<lfloor>x\<rfloor> \<le> round_even x" "round_even x \<le> \<lfloor>x\<rfloor> + 1"
  by (simp_all add: round_even_def Let_def)

lemma round_f64_idem:
  assumes "round_f64 q = Fin r"
  shows "round_f64 r = Fin r"
proof (cases "q = 0")
  case True
  then show ?thesis using assms by (auto simp: round_f64_def)
next
  case False
  define a where "a = \<bar>q\<bar>"
  define e where "e = max (ilog2 a) (- 1022)"
  define u :: rat where "u = 2 powi (e - 52)"
  define N where "N = round_even (a / u)"
  have a_pos: "0 < a" using False by (simp add: a_def)
  have u_pos: "0 < u" by (simp add: u_def)
  have unf: "round_f64 q = (if 2 powi 1024 \<le> of_int N * u then (if 0 < q then PosInf else NegInf)
                           else Fin (if 0 < q then of_int N * u else - (of_int N * u)))"
    using False
    by (simp add: round_f64_def Let_def a_def [symmetric] e_def [symmetric] pow2_powi
        u_def [symmetric] N_def [symmetric])
  have small: "of_int N * u < 2 powi 1024"
    using assms unf by (auto split: if_splits)
  have r: "r = (if 0 < q then of_int N * u else - (of_int N * u))"
    using assms unf small by (auto split: if_splits)
  have "a < 2 powi (ilog2 a + 1)" using ilog2_bounds(2) [OF a_pos] .
  also have "\<dots> \<le> 2 powi (e + 1)"
    by (rule power_int_increasing) (simp_all add: e_def)
  also have "\<dots> = 2 ^ 53 * u"
    using power_int_add [of "2::rat" 53 "e - 52"] by (simp add: u_def add.commute)
  finally have "a / u < 2 ^ 53"
    using u_pos by (simp add: pos_divide_less_eq)
  then have "\<lfloor>a / u\<rfloor> < 2 ^ 53"
    by (simp add: floor_less_iff)
  then have N_le: "N \<le> 2 ^ 53"
    using round_even_bounds(2) [of "a / u"] unfolding N_def by linarith
  have "0 \<le> a / u" using a_pos u_pos by simp
  then have "0 \<le> \<lfloor>a / u\<rfloor>" by simp
  then have N_ge: "0 \<le> N"
    using round_even_bounds(1) [of "a / u"] unfolding N_def by linarith
  have e_lo: "- 1022 \<le> e" by (simp add: e_def)
  have Nu: "round_f64 (of_int N * u) = Fin (of_int N * u)"
  proof (cases "N = 2 ^ 53")
    case True
    have "of_int N * u = of_int (2 ^ 52) * 2 powi (e - 51)"
    proof -
      have "(2::rat) powi (e - 51) = 2 * 2 powi (e - 52)"
        using power_int_add [of "2::rat" 1 "e - 52"] by simp
      then show ?thesis by (simp add: True u_def)
    qed
    moreover have "\<bar>of_int N * u\<bar> < 2 powi 1024"
      using small N_ge u_pos by (simp add: abs_mult)
    ultimately show ?thesis
      using e_lo by (intro round_f64_exact [of _ "2 ^ 52" "e - 51"]) simp_all
  next
    case False
    then have "\<bar>N\<bar> < 2 ^ 53" using N_le N_ge by simp
    moreover have "\<bar>of_int N * u\<bar> < 2 powi 1024"
      using small N_ge u_pos by (simp add: abs_mult)
    ultimately show ?thesis
      using e_lo by (intro round_f64_exact [of _ N "e - 52"]) (simp_all add: u_def)
  qed
  show ?thesis
  proof (cases "0 < q")
    case True
    then show ?thesis using Nu r by simp
  next
    case False
    have "\<bar>- N\<bar> < 2 ^ 53 \<or> N = 2 ^ 53" using N_le N_ge by auto
    have neg: "round_f64 (- (of_int N * u)) = Fin (- (of_int N * u))"
    proof (cases "N = 2 ^ 53")
      case True
      have "- (of_int N * u) = of_int (- (2 ^ 52)) * 2 powi (e - 51)"
      proof -
        have "(2::rat) powi (e - 51) = 2 * 2 powi (e - 52)"
          using power_int_add [of "2::rat" 1 "e - 52"] by simp
        then show ?thesis by (simp add: True u_def)
      qed
      moreover have "\<bar>- (of_int N * u)\<bar> < 2 powi 1024"
        using small N_ge u_pos by (simp add: abs_mult)
      ultimately show ?thesis
        using e_lo by (intro round_f64_exact [of _ "- (2 ^ 52)" "e - 51"]) simp_all
    next
      case False
      then have "\<bar>- N\<bar> < 2 ^ 53" using N_le N_ge by simp
      moreover have "\<bar>- (of_int N * u)\<bar> < 2 powi 1024"
        using small N_ge u_pos by (simp add: abs_mult)
      ultimately show ?thesis
        using e_lo by (intro round_f64_exact [of _ "- N" "e - 52"]) (simp_all add: u_def)
    qed
    then show ?thesis using False r by simp
  qed
qed

lemma is_f64_round: "is_f64 (round_f64 q)"
  by (cases "round_f64 q") (simp_all add: round_f64_idem)

lemma is_f64_mul: "is_f64 (py_mul x y)"
  by (cases x; cases y) (simp_all add: is_f64_round)

lemma is_f64_add: "is_f64 (py_add x y)"
  by (cases x; cases y) (simp_all add: is_f64_round)

lemma py_mul_one: "is_f64 x \<Longrightarrow> py_mul x (Fin 1) = x"
  by (cases x) simp_all

lemma round_f64_neg: "round_f64 (- q) = py_neg (round_f64 q)"
  by (simp add: round_f64_def Let_def)

lemma is_f64_zero: "is_f64 (Fin 0)"
  by (simp add: round_f64_def)

lemma is_f64_neg: "is_f64 (Fin a) \<Longrightarrow> round_f64 (- a) = Fin (- a)"
  by (simp add: round_f64_neg)


section \<open>Properties of validation\<close>





lemma quantity_field_range: "quantity_field lib d = Some n \<Longrightarrow> 1 \<le> n \<and> n \<le> 24"
  by (auto simp: quantity_field_def split: option.splits if_splits)

lemma validate_item_quantity:
  assumes "validate_item lib v = Some i"
  shows "1 \<le> quantity i \<and> quantity i \<le> 24"
proof (cases v)
  case (PDict d)
  have "quantity_field lib d = Some (quantity i)"
    using assms unfolding PDict validate_item_def
    by (auto split: option.splits)
  then show ?thesis by (rule quantity_field_range)
qed (use assms in \<open>simp_all add: validate_item_def\<close>)

lemma those_map_Some:
  "those (map f vs) = Some xs \<Longrightarrow> x \<in> set xs \<Longrightarrow> \<exists>v \<in> set vs. f v = Some x"
  by (induction vs arbitrary: xs) (auto split: option.splits)

lemma validate_items_quantity:
  assumes "validate_items lib v = Some xs" "i \<in> set xs"
  shows "1 \<le> quantity i \<and> quantity i \<le> 24"
proof -
  obtain vs where vs: "v = PList vs" "those (map (validate_item lib) vs) = Some xs"
    using assms(1) by (cases v) (simp_all add: validate_items_def)
  obtain w where "validate_item lib w = Some i"
    using those_map_Some [OF vs(2) assms(2)] by auto
  then show ?thesis by (rule validate_item_quantity)
qed

lemma validate_order_quantity:
  assumes "validate_order lib body = Inr order" "i \<in> set (items order)"
  shows "1 \<le> quantity i \<and> quantity i \<le> 24"
proof -
  obtain d where body: "body = PDict d"
    using assms(1) by (cases body) (simp_all add: validate_order_def)
  have "required (validate_items lib) d ''items'' = Some (items order)"
    using assms(1) unfolding body validate_order_def
    by (auto split: option.splits)
  then obtain w where "validate_items lib w = Some (items order)"
    by (auto simp: required_def split: option.splits)
  then show ?thesis using assms(2) by (rule validate_items_quantity)
qed

section \<open>Properties of the total\<close>

lemma line_total_in_range:
  assumes "1 \<le> quantity i \<and> quantity i \<le> 24"
  shows "line_total i = Inr (py_mul (unit_price i) (Fin (of_int (quantity i))))"
proof -
  have "\<bar>quantity i\<bar> < 2 ^ 53" using assms by simp
  then show ?thesis by (simp add: line_total_def float_of_small_int)
qed

lemma sum_from_returns:
  assumes "\<forall>i \<in> set xs. 1 \<le> quantity i \<and> quantity i \<le> 24"
  shows "\<exists>t. sum_from acc xs = Inr t"
  using assms by (induction xs arbitrary: acc) (simp_all add: line_total_in_range)

lemma sum_compensated_returns:
  assumes "\<forall>i \<in> set xs. 1 \<le> quantity i \<and> quantity i \<le> 24"
  shows "\<exists>t. sum_compensated f c xs = Inr t"
  using assms by (induction xs arbitrary: f c) (simp_all add: line_total_in_range Let_def)

lemma order_total_returns:
  assumes "\<forall>i \<in> set xs. 1 \<le> quantity i \<and> quantity i \<le> 24"
  shows "order_total py xs = Inr (float_total py xs)"
proof -
  have "\<exists>t. order_total py xs = Inr t"
  proof (cases py)
    case CPython_before_3_12
    then show ?thesis using sum_from_returns [OF assms] by simp
  next
    case CPython_from_3_12
    show ?thesis
    proof (cases xs)
      case Nil
      then show ?thesis using CPython_from_3_12 by simp
    next
      case (Cons i rest)
      have "\<forall>j \<in> set rest. 1 \<le> quantity j \<and> quantity j \<le> 24"
        using assms Cons by simp
      then show ?thesis
        using sum_compensated_returns [of rest] assms Cons CPython_from_3_12
        by (simp add: line_total_in_range)
    qed
  qed
  then show ?thesis by (auto simp: float_total_def)
qed

lemma order_total_valid:
  assumes "validate_order lib body = Inr order"
  shows "order_total py (items order) = Inr (float_total py (items order))"
  by (rule order_total_returns) (use validate_order_quantity [OF assms] in blast)

lemma create_order_valid:
  assumes "validate_order lib body = Inr order" "items order \<noteq> []"
  shows "create_order py db order s =
     (case create_document db ''order''
             (dict_set (order_dump order) ''total_amount''
                (PFloat (float_total py (items order)))) s of
        (Inr order_id, s') \<Rightarrow>
          (Inr [(''status'', PStr ''ok''), (''order_id'', order_id),
                (''total_amount'', PFloat (float_total py (items order)))], s')
      | (Inl e, s') \<Rightarrow>
          (Inr [(''status'', PStr ''ok''), (''order_id'', PNone),
                (''total_amount'', PFloat (float_total py (items order)))], s'))"
  using assms(2) by (simp add: create_order_def order_total_valid [OF assms(1)])

lemma create_order_valid_result:
  assumes "validate_order lib body = Inr order" "items order \<noteq> []"
  shows "\<exists>order_id s'. create_order py db order s =
           (Inr [(''status'', PStr ''ok''), (''order_id'', order_id),
                 (''total_amount'', PFloat (float_total py (items order)))], s')"
proof (cases "create_document db ''order''
         (dict_set (order_dump order) ''total_amount''
            (PFloat (float_total py (items order)))) s")
  case (Pair r s')
  then show ?thesis
    by (cases r) (simp_all add: create_order_valid [OF assms])
qed

subsection \<open>The total when nothing is rounded\<close>

lemma line_total_exact:
  assumes "1 \<le> quantity i \<and> quantity i \<le> 24" and "unit_price i = Fin a"
    and "is_f64 (Fin (a * of_int (quantity i)))"
  shows "line_total i = Inr (Fin (a * of_int (quantity i)))"
  using assms(2,3) by (simp add: line_total_in_range [OF assms(1)])

lemma no_rounding_Cons:
  assumes "no_rounding acc (i # rest)"
  obtains a where "unit_price i = Fin a" "is_f64 (Fin (a * of_int (quantity i)))"
    "is_f64 (Fin (acc + a * of_int (quantity i)))"
    "no_rounding (acc + a * of_int (quantity i)) rest"
  using assms by (cases "unit_price i") simp_all

lemma exact_sum_Cons:
  "unit_price i = Fin a \<Longrightarrow> exact_sum (i # rest) = a * of_int (quantity i) + exact_sum rest"
  by (simp add: exact_sum_def)

lemma sum_from_exact:
  assumes "\<forall>i \<in> set xs. 1 \<le> quantity i \<and> quantity i \<le> 24" and "no_rounding acc xs"
  shows "sum_from (Fin acc) xs = Inr (Fin (acc + exact_sum xs))"
  using assms
proof (induction xs arbitrary: acc)
  case Nil
  then show ?case by (simp add: exact_sum_def)
next
  case (Cons i rest)
  obtain a where a: "unit_price i = Fin a" "is_f64 (Fin (a * of_int (quantity i)))"
      "is_f64 (Fin (acc + a * of_int (quantity i)))"
      "no_rounding (acc + a * of_int (quantity i)) rest"
    using Cons.prems(2) by (rule no_rounding_Cons)
  have l: "line_total i = Inr (Fin (a * of_int (quantity i)))"
    using Cons.prems(1) a(1,2) by (intro line_total_exact) simp_all
  have "sum_from (Fin (acc + a * of_int (quantity i))) rest =
          Inr (Fin (acc + a * of_int (quantity i) + exact_sum rest))"
    using Cons.IH [OF _ a(4)] Cons.prems(1) by simp
  then show ?case
    using a(3) by (simp add: l exact_sum_Cons [OF a(1)] add.assoc)
qed

lemma compensation_zero:
  assumes "is_f64 (Fin acc)" and "is_f64 (Fin b)"
  shows "py_add (Fin 0)
           (if py_abs_ge (Fin acc) (Fin b)
            then py_add (py_sub (Fin acc) (Fin (acc + b))) (Fin b)
            else py_add (py_sub (Fin b) (Fin (acc + b))) (Fin acc)) = Fin 0"
proof -
  have z: "round_f64 0 = Fin 0" by (simp add: round_f64_def)
  have 1: "py_add (py_sub (Fin acc) (Fin (acc + b))) (Fin b) = Fin 0"
    using is_f64_neg [OF assms(2)] by (simp add: py_sub_def z)
  have 2: "py_add (py_sub (Fin b) (Fin (acc + b))) (Fin acc) = Fin 0"
    using is_f64_neg [OF assms(1)] by (simp add: py_sub_def z)
  show ?thesis unfolding 1 2 by (simp add: z)
qed

lemma sum_compensated_exact:
  assumes "\<forall>i \<in> set xs. 1 \<le> quantity i \<and> quantity i \<le> 24" and "no_rounding acc xs"
    and "is_f64 (Fin acc)"
  shows "sum_compensated (Fin acc) (Fin 0) xs = Inr (Fin (acc + exact_sum xs))"
  using assms
proof (induction xs arbitrary: acc)
  case Nil
  then show ?case by (simp add: exact_sum_def)
next
  case (Cons i rest)
  obtain a where a: "unit_price i = Fin a" "is_f64 (Fin (a * of_int (quantity i)))"
      "is_f64 (Fin (acc + a * of_int (quantity i)))"
      "no_rounding (acc + a * of_int (quantity i)) rest"
    using Cons.prems(2) by (rule no_rounding_Cons)
  define b where "b = a * of_int (quantity i)"
  have l: "line_total i = Inr (Fin b)"
    unfolding b_def using Cons.prems(1) a(1,2) by (intro line_total_exact) simp_all
  have t: "py_add (Fin acc) (Fin b) = Fin (acc + b)"
    using a(3) by (simp add: b_def)
  have c: "py_add (Fin 0)
             (if py_abs_ge (Fin acc) (Fin b)
              then py_add (py_sub (Fin acc) (Fin (acc + b))) (Fin b)
              else py_add (py_sub (Fin b) (Fin (acc + b))) (Fin acc)) = Fin 0"
    using Cons.prems(3) a(2) unfolding b_def [symmetric] by (rule compensation_zero)
  have step: "sum_compensated (Fin acc) (Fin 0) (i # rest) =
                sum_compensated (Fin (acc + b)) (Fin 0) rest"
    by (simp only: sum_compensated.simps l sum.case Let_def t c)
  have "sum_compensated (Fin (acc + b)) (Fin 0) rest = Inr (Fin (acc + b + exact_sum rest))"
    using Cons.IH [of "acc + b"] Cons.prems(1) a(3,4) by (simp add: b_def)
  then show ?case
    unfolding step by (simp add: exact_sum_Cons [OF a(1)] b_def add.assoc)
qed

lemma order_total_exact:
  assumes "\<forall>i \<in> set xs. 1 \<le> quantity i \<and> quantity i \<le> 24" and "no_rounding 0 xs"
  shows "order_total py xs = Inr (Fin (exact_sum xs))"
proof (cases py)
  case CPython_before_3_12
  then show ?thesis using sum_from_exact [OF assms] by simp
next
  case CPython_from_3_12
  show ?thesis
  proof (cases xs)
    case Nil
    then show ?thesis using CPython_from_3_12 by (simp add: exact_sum_def)
  next
    case (Cons i rest)
    obtain a where a: "unit_price i = Fin a" "is_f64 (Fin (a * of_int (quantity i)))"
        "is_f64 (Fin (0 + a * of_int (quantity i)))"
        "no_rounding (0 + a * of_int (quantity i)) rest"
      using assms(2) unfolding Cons by (rule no_rounding_Cons)
    have l: "line_total i = Inr (Fin (a * of_int (quantity i)))"
      using assms(1) Cons a(1,2) by (intro line_total_exact) simp_all
    have r: "\<forall>j \<in> set rest. 1 \<le> quantity j \<and> quantity j \<le> 24"
      using assms(1) Cons by simp
    have "sum_compensated (Fin (a * of_int (quantity i))) (Fin 0) rest =
            Inr (Fin (a * of_int (quantity i) + exact_sum rest))"
      using sum_compensated_exact [OF r, of "a * of_int (quantity i)"] a(2,4) by simp
    then show ?thesis
      using a(2) by (simp add: CPython_from_3_12 Cons l exact_sum_Cons [OF a(1)])
  qed
qed


section \<open>Evaluating the rounding at concrete numbers\<close>

lemma floor_rat_numeral: "\<lfloor>(numeral a / numeral b :: rat)\<rfloor> = numeral a div numeral b"
  using floor_divide_of_int_eq [of "numeral a" "numeral b", where ?'a = rat] by simp

lemma round_f64_nearest:
  assumes "0 < q" and "2 powi e \<le> q" and "q < 2 powi (e + 1)" and "- 1022 \<le> e"
    and "2 powi (e - 52) = u" and "round_even (q / u) = n" and "of_int n * u = r"
    and "r < 2 powi 1024"
  shows "round_f64 q = Fin r"
proof -
  have "ilog2 q = e" using assms(1-3) by (rule ilog2_unique)
  then show ?thesis
    using assms(1,4,8) assms(5-7) [symmetric]
    by (simp add: round_f64_def Let_def pow2_powi not_le)
qed

lemma round_f64_of_int:
  assumes "\<bar>n\<bar> < 2 ^ 53"
  shows "round_f64 (of_int n) = Fin (of_int n)"
proof -
  have "\<bar>of_int n :: rat\<bar> < of_int (2 ^ 53)"
    using assms by (simp only: of_int_abs [symmetric] of_int_less_iff)
  also have "(of_int (2 ^ 53) :: rat) \<le> 2 powi 1024"
    by (simp add: power_int_def)
  finally show ?thesis
    using round_f64_exact [of "of_int n" n 0] assms by simp
qed

lemma float_12_90: "float_lit (129 / 10) = Fin (7262054399134925 / 562949953421312)"
  unfolding float_lit_def
  by (rule round_f64_nearest [where e = 3 and u = "1 / 562949953421312"
        and n = 7262054399134925])
     (simp_all add: power_int_def power_one_over round_even_def Let_def floor_rat_numeral)

lemma float_5: "float_lit 5 = Fin 5"
  unfolding float_lit_def using round_f64_of_int [of 5] by simp

lemma float_30_80: "float_lit (154 / 5) = Fin (8669429282688205 / 281474976710656)"
  unfolding float_lit_def
  by (rule round_f64_nearest [where e = 4 and u = "1 / 281474976710656"
        and n = 8669429282688205])
     (simp_all add: power_int_def power_one_over round_even_def Let_def floor_rat_numeral)

lemma float_0_10: "float_lit (1 / 10) = Fin (3602879701896397 / 36028797018963968)"
  unfolding float_lit_def
  by (rule round_f64_nearest [where e = "- 4" and u = "1 / 72057594037927936"
        and n = 7205759403792794])
     (simp_all add: power_int_def power_one_over round_even_def Let_def floor_rat_numeral)

lemma float_0_30: "float_lit (3 / 10) = Fin (5404319552844595 / 18014398509481984)"
  unfolding float_lit_def
  by (rule round_f64_nearest [where e = "- 2" and u = "1 / 18014398509481984"
        and n = 5404319552844595])
     (simp_all add: power_int_def power_one_over round_even_def Let_def floor_rat_numeral)

lemma round_25_80:
  "round_f64 (7262054399134925 / 281474976710656) = Fin (7262054399134925 / 281474976710656)"
  using round_f64_exact [of "7262054399134925 / 281474976710656" 7262054399134925 "- 48"]
  by (simp add: power_int_def power_one_over)

lemma round_30_80:
  "round_f64 (8669429282688205 / 281474976710656) = Fin (8669429282688205 / 281474976710656)"
  using round_f64_exact [of "8669429282688205 / 281474976710656" 8669429282688205 "- 48"]
  by (simp add: power_int_def power_one_over)

lemma round_three_tenths_product:
  "round_f64 (10808639105689191 / 36028797018963968) =
     Fin (1351079888211149 / 4503599627370496)"
  by (rule round_f64_nearest [where e = "- 2" and u = "1 / 18014398509481984"
        and n = 5404319552844596])
     (simp_all add: power_int_def power_one_over round_even_def Let_def floor_rat_numeral)

lemma round_0_30000000000000004:
  "round_f64 (1351079888211149 / 4503599627370496) = Fin (1351079888211149 / 4503599627370496)"
  using round_f64_exact [of "1351079888211149 / 4503599627370496" 1351079888211149 "- 52"]
  by (simp add: power_int_def power_one_over)





subsection \<open>The two ways of summing differ\<close>

text \<open>
  On the prices 0.1, 0.2 and 0.3, one of each, the plain sum gives 0.6000000000000001 and
  the compensated sum 0.6, the float that the literal \<open>0.6\<close> denotes: the total of an
  order depends on the interpreter.
\<close>

lemma float_0_20: "float_lit (1 / 5) = Fin (3602879701896397 / 18014398509481984)"
  unfolding float_lit_def
  by (rule round_f64_nearest [where e = "- 3" and u = "1 / 36028797018963968"
        and n = 7205759403792794])
     (simp_all add: power_int_def power_one_over round_even_def Let_def floor_rat_numeral)

lemma float_0_60: "float_lit (3 / 5) = Fin (5404319552844595 / 9007199254740992)"
  unfolding float_lit_def
  by (rule round_f64_nearest [where e = "- 1" and u = "1 / 9007199254740992"
        and n = 5404319552844595])
     (simp_all add: power_int_def power_one_over round_even_def Let_def floor_rat_numeral)

lemma round_0_1: "round_f64 (3602879701896397 / 36028797018963968) =
    Fin (3602879701896397 / 36028797018963968)"
  using is_f64_round [of "1 / 10"] by (simp add: float_0_10 [unfolded float_lit_def])

lemma round_0_2: "round_f64 (3602879701896397 / 18014398509481984) =
    Fin (3602879701896397 / 18014398509481984)"
  using is_f64_round [of "1 / 5"] by (simp add: float_0_20 [unfolded float_lit_def])

lemma round_0_3: "round_f64 (5404319552844595 / 18014398509481984) =
    Fin (5404319552844595 / 18014398509481984)"
  using is_f64_round [of "3 / 10"] by (simp add: float_0_30 [unfolded float_lit_def])

lemma round_three_tenths_sum:
  "round_f64 (10808639105689191 / 18014398509481984) =
     Fin (1351079888211149 / 2251799813685248)"
  by (rule round_f64_nearest [where e = "- 1" and u = "1 / 9007199254740992"
        and n = 5404319552844596])
     (simp_all add: power_int_def power_one_over round_even_def Let_def floor_rat_numeral)

lemma round_compensated_sum:
  "round_f64 (21617278211378381 / 36028797018963968) =
     Fin (5404319552844595 / 9007199254740992)"
  by (rule round_f64_nearest [where e = "- 1" and u = "1 / 9007199254740992"
        and n = 5404319552844595])
     (simp_all add: power_int_def power_one_over round_even_def Let_def floor_rat_numeral)

lemma round_error_terms:
  "round_f64 (1801439850948199 / 18014398509481984) = Fin (1801439850948199 / 18014398509481984)"
  "round_f64 (1 / 36028797018963968) = Fin (1 / 36028797018963968)"
  "round_f64 (1 / 18014398509481984) = Fin (1 / 18014398509481984)"
  "round_f64 (3 / 36028797018963968) = Fin (3 / 36028797018963968)"
  using round_f64_exact [of "1801439850948199 / 18014398509481984" 1801439850948199 "- 54"]
    round_f64_exact [of "1 / 36028797018963968" 1 "- 55"]
    round_f64_exact [of "1 / 18014398509481984" 1 "- 54"]
    round_f64_exact [of "3 / 36028797018963968" 3 "- 55"]
  by (simp_all add: power_int_def power_one_over)

lemma three_items_lines:
  "map line_total three_items =
     [Inr (Fin (3602879701896397 / 36028797018963968)),
      Inr (Fin (3602879701896397 / 18014398509481984)),
      Inr (Fin (5404319552844595 / 18014398509481984))]"
  by (simp add: three_items_def line_total_def float_of_small_int float_0_10 float_0_20
      float_0_30 round_0_1 round_0_2 round_0_3)

lemma three_items_plain_total:
  "order_total CPython_before_3_12 three_items =
     Inr (Fin (1351079888211149 / 2251799813685248))"
  using three_items_lines
  by (simp add: three_items_def round_0_1 round_three_tenths_product round_three_tenths_sum)

lemma three_items_compensated_total:
  "order_total CPython_from_3_12 three_items = Inr (float_lit (3 / 5))"
  using three_items_lines
  by (simp add: three_items_def py_sub_def round_0_1 round_three_tenths_product
      round_three_tenths_sum round_f64_neg round_error_terms round_0_30000000000000004
      round_compensated_sum float_0_60 Let_def)

section \<open>The sample inputs evaluated\<close>

lemma strict_validators_simps:
  "as_str strict_validators (PStr t) = Some t"
  "as_float strict_validators (PFloat x) = Some x"
  "as_int strict_validators (PInt n) = Some n"
  "as_bool strict_validators (PBool b) = Some b"
  "as_email strict_validators (PStr t) = (if simple_email t then Some t else None)"
  by (simp_all add: strict_validators_def)

lemma strict_validators_typed: "accepts_typed strict_validators"
  by (simp add: accepts_typed_def strict_validators_simps)

lemma example_email: "simple_email ''ada@example.org''"
  by (simp add: simple_email_def)

lemma example_body_validates:
  "validate_order strict_validators (PDict example_body) = Inr example_order"
  by (simp add: validate_order_def example_body_def example_order_def example_items_def
      required_def validate_items_def validate_item_def quantity_field_def notes_field_def
      strict_validators_simps example_email)

lemma order_total_single:
  "order_total py [i] = (case line_total i of Inl e \<Rightarrow> Inl e | Inr x \<Rightarrow> Inr (py_add (Fin 0) x))"
  by (cases py) (simp_all split: sum.splits)

lemma example_items_quantities: "\<forall>i \<in> set example_items. 1 \<le> quantity i \<and> quantity i \<le> 24"
  by (simp add: example_items_def)

lemma example_items_no_rounding: "no_rounding 0 example_items"
  by (simp add: example_items_def float_12_90 float_5 round_25_80 round_30_80
      round_f64_of_int [of 5, simplified])

lemma example_items_exact_sum: "exact_sum example_items = 8669429282688205 / 281474976710656"
  by (simp add: exact_sum_def example_items_def float_12_90 float_5)

lemma example_items_total: "order_total py example_items = Inr (float_lit (154 / 5))"
  using order_total_exact [OF example_items_quantities example_items_no_rounding, of py]
  by (simp add: example_items_exact_sum float_30_80)

lemma tenth_items_total:
  "order_total py tenth_items = Inr (Fin (1351079888211149 / 4503599627370496))"
  by (simp add: order_total_single tenth_items_def line_total_def float_of_small_int
      float_0_10 round_three_tenths_product round_0_30000000000000004)



section \<open>The claims about checkout\<close>

text \<open>
  Claim C5. A checkout whose items sequence is empty fails with the 400 client error; it
  gives no success response, no total is computed and the store is not called: the
  state of the collaborator is the one the handler started with.
\<close>

theorem create_order_empty_items:
  "create_order py db (order\<lparr>items := []\<rparr>) s =
     (Inl (HTTPException 400 ''Order must contain at least one item''), s)"
  by (simp add: create_order_def)





text \<open>
  Claim C4. For an order that passed validation and has at least one item, a failing
  insert is not propagated: the response is status \<open>ok\<close> with \<open>order_id\<close> \<open>None\<close> and the
  total. The total is the one returned when the insert succeeds.
\<close>

theorem create_order_store_failure:
  assumes "validate_order lib body = Inr order" and "items order \<noteq> []"
    and "create_document db ''order''
           (dict_set (order_dump order) ''total_amount''
              (PFloat (float_total py (items order)))) s
         = (Inl e, s')"
    and "create_document db2 ''order''
           (dict_set (order_dump order) ''total_amount''
              (PFloat (float_total py (items order)))) s2
         = (Inr order_id, s2')"
  shows "create_order py db order s =
           (Inr [(''status'', PStr ''ok''), (''order_id'', PNone),
                 (''total_amount'', PFloat (float_total py (items order)))], s') \<and>
         create_order py db2 order s2 =
           (Inr [(''status'', PStr ''ok''), (''order_id'', order_id),
                 (''total_amount'', PFloat (float_total py (items order)))], s2')"
  by (simp add: create_order_valid [OF assms(1,2)] assms(3,4))

theorem create_order_store_failure_witness:
  "create_order CPython_before_3_12 failing_store example_order () =
     (Inr [(''status'', PStr ''ok''), (''order_id'', PNone),
           (''total_amount'',
            PFloat (float_total CPython_before_3_12 (items example_order)))], ()) \<and>
   create_order CPython_before_3_12 memory_store example_order [] =
     (Inr [(''status'', PStr ''ok''), (''order_id'', PStr ''doc-order''),
           (''total_amount'',
            PFloat (float_total CPython_before_3_12 (items example_order)))],
      [(''order'', dict_set (order_dump example_order) ''total_amount''
                     (PFloat (float_total CPython_before_3_12 (items example_order))))])"
proof -
  have 1: "items example_order \<noteq> []"
    by (simp add: example_order_def example_items_def)
  have 2: "create_document failing_store ''order''
             (dict_set (order_dump example_order) ''total_amount''
                (PFloat (float_total CPython_before_3_12 (items example_order)))) ()
           = (Inl (Exception ''store unreachable''), ())"
    by (simp add: failing_store_def)
  have 3: "create_document memory_store ''order''
             (dict_set (order_dump example_order) ''total_amount''
                (PFloat (float_total CPython_before_3_12 (items example_order)))) []
           = (Inr (PStr ''doc-order''),
              [(''order'', dict_set (order_dump example_order) ''total_amount''
                             (PFloat (float_total CPython_before_3_12
                                        (items example_order))))])"
    by (simp add: memory_store_def)
  show ?thesis
    using create_order_store_failure [OF example_body_validates 1 2 3] .
qed


lemma line_total_cong:
  "unit_price i = unit_price j \<Longrightarrow> quantity i = quantity j \<Longrightarrow> line_total i = line_total j"
  by (simp add: line_total_def cong: sum.case_cong)

lemma sum_from_cong:
  assumes "map (\<lambda>i. (unit_price i, quantity i)) xs = map (\<lambda>i. (unit_price i, quantity i)) ys"
  shows "sum_from acc xs = sum_from acc ys"
  using assms
proof (induction xs arbitrary: ys acc)
  case Nil
  then show ?case by simp
next
  case (Cons i xs)
  then obtain j zs where ys: "ys = j # zs" by (cases ys) auto
  have "line_total i = line_total j"
    using Cons.prems ys by (intro line_total_cong) simp_all
  then show ?case
    using Cons.IH [of zs] Cons.prems ys by (simp split: sum.splits)
qed

lemma sum_compensated_cong:
  assumes "map (\<lambda>i. (unit_price i, quantity i)) xs = map (\<lambda>i. (unit_price i, quantity i)) ys"
  shows "sum_compensated f c xs = sum_compensated f c ys"
  using assms
proof (induction xs arbitrary: ys f c)
  case Nil
  then show ?case by simp
next
  case (Cons i xs)
  then obtain j zs where ys: "ys = j # zs" by (cases ys) auto
  have "line_total i = line_total j"
    using Cons.prems ys by (intro line_total_cong) simp_all
  then show ?case
    using Cons.IH [of zs] Cons.prems ys by (simp split: sum.splits add: Let_def)
qed

lemma float_total_cong:
  assumes "map (\<lambda>i. (unit_price i, quantity i)) xs = map (\<lambda>i. (unit_price i, quantity i)) ys"
  shows "float_total py xs = float_total py ys"
proof -
  have "order_total py xs = order_total py ys"
  proof (cases py)
    case CPython_before_3_12
    then show ?thesis using sum_from_cong [OF assms] by simp
  next
    case CPython_from_3_12
    show ?thesis
    proof (cases xs)
      case Nil
      then show ?thesis using assms by simp
    next
      case (Cons i xs')
      then obtain j ys' where ys: "ys = j # ys'" using assms by (cases ys) auto
      have l: "line_total i = line_total j"
        using assms Cons ys by (intro line_total_cong) simp_all
      have "map (\<lambda>i. (unit_price i, quantity i)) xs' = map (\<lambda>i. (unit_price i, quantity i)) ys'"
        using assms Cons ys by simp
      then show ?thesis
        using sum_compensated_cong [of xs' ys'] l
        by (simp add: CPython_from_3_12 Cons ys split: sum.splits)
    qed
  qed
  then show ?thesis by (simp add: float_total_def)
qed

text \<open>
  Claim C9. The total is a function of the unit prices and quantities alone: two orders
  that passed validation and whose items agree on unit price and quantity, item by
  item, get the same \<open>total_amount\<close> on a given interpreter, whatever their other
  fields are and whatever the two stores do (one insert may fail and the other succeed).
\<close>

theorem total_determined_by_prices_and_quantities:
  assumes "validate_order lib1 body1 = Inr order1" and "validate_order lib2 body2 = Inr order2"
    and "items order1 \<noteq> []"
    and "map (\<lambda>i. (unit_price i, quantity i)) (items order1) =
         map (\<lambda>i. (unit_price i, quantity i)) (items order2)"
  shows "\<exists>id1 id2 s1' s2' t.
           create_order py db1 order1 s1 =
             (Inr [(''status'', PStr ''ok''), (''order_id'', id1),
                   (''total_amount'', PFloat t)], s1') \<and>
           create_order py db2 order2 s2 =
             (Inr [(''status'', PStr ''ok''), (''order_id'', id2),
                   (''total_amount'', PFloat t)], s2')"
proof -
  have "length (items order1) = length (items order2)"
    using assms(4) by (rule map_eq_imp_length_eq)
  then have ne2: "items order2 \<noteq> []" using assms(3) by auto
  have same: "float_total py (items order2) = float_total py (items order1)"
    using float_total_cong [OF assms(4)] by simp
  obtain id1 s1' where 1: "create_order py db1 order1 s1 =
      (Inr [(''status'', PStr ''ok''), (''order_id'', id1),
            (''total_amount'', PFloat (float_total py (items order1)))], s1')"
    using create_order_valid_result [OF assms(1,3), of py db1 s1] by blast
  obtain id2 s2' where 2: "create_order py db2 order2 s2 =
      (Inr [(''status'', PStr ''ok''), (''order_id'', id2),
            (''total_amount'', PFloat (float_total py (items order1)))], s2')"
    using create_order_valid_result [OF assms(2) ne2, of py db2 s2] unfolding same by blast
  from 1 2 show ?thesis by blast
qed

lemma example_body_bob_validates:
  "validate_order strict_validators (PDict example_body_bob) = Inr example_order_bob"
  by (simp add: validate_order_def example_body_bob_def example_order_bob_def example_body_def
      example_order_def example_items_def required_def validate_items_def validate_item_def
      quantity_field_def notes_field_def strict_validators_simps example_email)

theorem total_determined_by_prices_and_quantities_witness:
  "\<exists>id1 id2 s1' s2' t.
     create_order CPython_from_3_12 memory_store example_order [] =
       (Inr [(''status'', PStr ''ok''), (''order_id'', id1), (''total_amount'', PFloat t)], s1') \<and>
     create_order CPython_from_3_12 failing_store example_order_bob () =
       (Inr [(''status'', PStr ''ok''), (''order_id'', id2), (''total_amount'', PFloat t)], s2')"
proof -
  have 1: "items example_order \<noteq> []"
    by (simp add: example_order_def example_items_def)
  have 2: "map (\<lambda>i. (unit_price i, quantity i)) (items example_order) =
           map (\<lambda>i. (unit_price i, quantity i)) (items example_order_bob)"
    by (simp add: example_order_bob_def)
  show ?thesis
    using total_determined_by_prices_and_quantities
      [OF example_body_validates example_body_bob_validates 1 2] .
qed

lemma py_add_zero: "is_f64 x \<Longrightarrow> py_add (Fin 0) x = x"
  by (cases x) simp_all

text \<open>
  Claim C10. An item of a request body that has no \<open>quantity\<close> key is not rejected for
  it: when its other three fields validate, the item validates with quantity 1. Its
  line total is then its unit price (a binary64 value \<open>p\<close>), which is what it adds to
  the running sum; for an order of that one item the total is the unit price, on
  either interpreter.
\<close>

theorem quantity_defaults_to_one:
  assumes "map_of d ''quantity'' = None"
    and "required (as_str lib) d ''product_sku'' = Some a"
    and "required (as_str lib) d ''title'' = Some b"
    and "required (as_float lib) d ''unit_price'' = Some p"
    and "is_f64 p"
  shows "validate_item lib (PDict d) =
           Some \<lparr>product_sku = a, title = b, unit_price = p, quantity = 1\<rparr> \<and>
         line_total \<lparr>product_sku = a, title = b, unit_price = p, quantity = 1\<rparr> = Inr p \<and>
         sum_from acc (\<lparr>product_sku = a, title = b, unit_price = p, quantity = 1\<rparr> # rest) =
           sum_from (py_add acc p) rest \<and>
         order_total py [\<lparr>product_sku = a, title = b, unit_price = p, quantity = 1\<rparr>] = Inr p"
proof -
  have v: "validate_item lib (PDict d) =
             Some \<lparr>product_sku = a, title = b, unit_price = p, quantity = 1\<rparr>"
    by (simp add: validate_item_def quantity_field_def assms(1-4))
  have l: "line_total \<lparr>product_sku = a, title = b, unit_price = p, quantity = 1\<rparr> = Inr p"
    using py_mul_one [OF assms(5)]
    by (simp add: line_total_def float_of_small_int [of 1, simplified])
  from v l show ?thesis
    by (simp add: order_total_single py_add_zero [OF assms(5)])
qed

theorem quantity_defaults_to_one_witness:
  "validate_item strict_validators (PDict item_without_quantity) =
     Some \<lparr>product_sku = ''ARONIA-750ML'', title = ''Aronia Pure'',
           unit_price = float_lit (129 / 10), quantity = 1\<rparr> \<and>
   order_total CPython_from_3_12
     [\<lparr>product_sku = ''ARONIA-750ML'', title = ''Aronia Pure'',
       unit_price = float_lit (129 / 10), quantity = 1\<rparr>] =
     Inr (float_lit (129 / 10))"
proof -
  have 1: "map_of item_without_quantity ''quantity'' = None"
    by (simp add: item_without_quantity_def)
  have 2: "required (as_str strict_validators) item_without_quantity ''product_sku'' =
             Some ''ARONIA-750ML''"
    by (simp add: item_without_quantity_def required_def strict_validators_simps)
  have 3: "required (as_str strict_validators) item_without_quantity ''title'' =
             Some ''Aronia Pure''"
    by (simp add: item_without_quantity_def required_def strict_validators_simps)
  have 4: "required (as_float strict_validators) item_without_quantity ''unit_price'' =
             Some (float_lit (129 / 10))"
    by (simp add: item_without_quantity_def required_def strict_validators_simps)
  have 5: "is_f64 (float_lit (129 / 10))"
    by (simp add: float_lit_def is_f64_round)
  show ?thesis
    using quantity_defaults_to_one [OF 1 2 3 4 5] by simp
qed


text \<open>
  Claim C8 does not hold as stated: the total is not computed in exact decimal
  arithmetic. For one item at 0.10 with quantity 3 the handler returns the float
  0.30000000000000004 (\<open>1351079888211149 / 2^52\<close>) on either interpreter, which is
  neither the number 0.3 nor the float that the literal \<open>0.30\<close> denotes.
\<close>

theorem exact_decimal_total_counterexample:
  "fst (create_order CPython_before_3_12 failing_store
          (example_order\<lparr>items := tenth_items\<rparr>) ()) =
     Inr [(''status'', PStr ''ok''), (''order_id'', PNone),
          (''total_amount'', PFloat (Fin (1351079888211149 / 4503599627370496)))] \<and>
   fst (create_order CPython_from_3_12 failing_store
          (example_order\<lparr>items := tenth_items\<rparr>) ()) =
     Inr [(''status'', PStr ''ok''), (''order_id'', PNone),
          (''total_amount'', PFloat (Fin (1351079888211149 / 4503599627370496)))] \<and>
   Fin (1351079888211149 / 4503599627370496) \<noteq> float_lit (3 / 10) \<and>
   (1351079888211149 / 4503599627370496 :: rat) \<noteq> 3 / 10"
proof -
  have "items (example_order\<lparr>items := tenth_items\<rparr>) \<noteq> []"
    by (simp add: tenth_items_def)
  then show ?thesis
    by (simp add: create_order_def tenth_items_total failing_store_def float_0_30)
qed

text \<open>
  Claim C8, amended. For the items 12.90 twice and 5.00 once \<open>create_order\<close> returns as
  \<open>total_amount\<close> the float that the literal \<open>30.80\<close> denotes, on either interpreter,
  for every store and whatever the other fields of the order.
\<close>

theorem example_total_is_30_80:
  "\<exists>order_id s'. create_order py db (order\<lparr>items := example_items\<rparr>) s =
     (Inr [(''status'', PStr ''ok''), (''order_id'', order_id),
           (''total_amount'', PFloat (float_lit (154 / 5)))], s')"
proof -
  have ne: "items (order\<lparr>items := example_items\<rparr>) \<noteq> []"
    by (simp add: example_items_def)
  obtain r s' where c: "create_document db ''order''
      (dict_set (order_dump (order\<lparr>items := example_items\<rparr>)) ''total_amount''
         (PFloat (float_lit (154 / 5)))) s = (r, s')"
    by (cases "create_document db ''order''
      (dict_set (order_dump (order\<lparr>items := example_items\<rparr>)) ''total_amount''
         (PFloat (float_lit (154 / 5)))) s")
  show ?thesis
    using ne c by (cases r) (simp_all add: create_order_def example_items_total)
qed

section \<open>The claim about shape validation\<close>

lemma quantity_out_of_range_rejected:
  assumes "map_of d ''quantity'' = Some v" and "as_int lib v = Some n" and "n < 1 \<or> 24 < n"
  shows "validate_item lib (PDict d) = None"
  using assms by (auto simp: validate_item_def quantity_field_def split: option.splits)

lemma those_map_None: "v \<in> set vs \<Longrightarrow> f v = None \<Longrightarrow> those (map f vs) = None"
  by (induction vs) (auto split: option.splits)

lemma rejected_item_rejects_order:
  assumes "map_of d ''items'' = Some (PList vs)" and "v \<in> set vs"
    and "validate_item lib v = None"
  shows "post_checkout lib py db (PDict d) s = (Inl RequestValidationError, s)"
proof -
  have "required (validate_items lib) d ''items'' = None"
    using those_map_None [of v vs "validate_item lib", OF assms(2,3)] by (simp add: required_def assms(1) validate_items_def)
  then show ?thesis
    by (simp add: post_checkout_def validate_order_def split: option.splits)
qed

lemma malformed_email_rejected:
  assumes "map_of d ''customer_email'' = Some v" and "as_email lib v = None"
  shows "post_checkout lib py db (PDict d) s = (Inl RequestValidationError, s)"
proof -
  have "required (as_email lib) d ''customer_email'' = None"
    by (simp add: required_def assms)
  then show ?thesis
    by (simp add: post_checkout_def validate_order_def split: option.splits)
qed

lemma negative_price_body_validates:
  "validate_order strict_validators (PDict negative_price_body) =
     Inr \<lparr>customer_name = ''Ada'', customer_email = ''ada@example.org'',
          shipping_address = ''1 Main Street'',
          items = [\<lparr>product_sku = ''ARONIA-750ML'', title = ''Aronia Pure'',
                    unit_price = Fin (- 5), quantity = 1\<rparr>],
          order_notes = None\<rparr>"
  by (simp add: validate_order_def negative_price_body_def required_def validate_items_def
      validate_item_def quantity_field_def notes_field_def strict_validators_simps example_email)

text \<open>
  Claim C2 holds for the quantity and for the email address (the three lemmas above),
  and fails for the unit price: \<open>unit_price: float\<close> carries no \<open>ge=0\<close>, unlike \<open>price\<close> in
  \<open>Product\<close> and \<open>AroniaProduct\<close>. A body whose item has the unit price \<open>-5.0\<close> passes
  validation, reaches the handler, and is answered with the total \<open>-5.0\<close>, on either
  interpreter.
\<close>

theorem negative_unit_price_accepted:
  "fst (post_checkout strict_validators py memory_store (PDict negative_price_body) []) =
     Inr [(''status'', PStr ''ok''), (''order_id'', PStr ''doc-order''),
          (''total_amount'', PFloat (Fin (- 5)))]"
proof -
  have r: "round_f64 (- 5) = Fin (- 5)"
    using round_f64_of_int [of "- 5"] by simp
  show ?thesis
    by (simp add: post_checkout_def negative_price_body_validates create_order_def
        order_total_single line_total_def float_of_small_int r memory_store_def)
qed


section \<open>Properties of the catalog\<close>

lemma list_products_empty:
  assumes "get_documents db ''aroniaproduct'' [] s = (r, s1)" and "r = Inr [] \<or> r = Inl e"
  shows "list_products bi db s =
           (Inr [product_dump AroniaProduct_default],
            snd (create_document db ''aroniaproduct'' (product_dump AroniaProduct_default) s1))"
proof -
  obtain r2 s2 where c: "create_document db ''aroniaproduct''
      (product_dump AroniaProduct_default) s1 = (r2, s2)"
    by (cases "create_document db ''aroniaproduct'' (product_dump AroniaProduct_default) s1")
  have "(case r of Inl e \<Rightarrow> [] | Inr ds \<Rightarrow> ds) = []"
    using assms(2) by auto
  then show ?thesis
    by (cases r2) (simp_all add: list_products_def assms(1) c)
qed

lemma list_products_documents:
  assumes "get_documents db ''aroniaproduct'' [] s = (Inr ds, s1)" and "ds \<noteq> []"
  shows "list_products bi db s =
           (case normalize_all bi ds of Inl e \<Rightarrow> (Inl e, s1) | Inr ps \<Rightarrow> (Inr ps, s1))"
  using assms(2) by (simp add: list_products_def assms(1))

lemma py_float_zero: "py_float bi (PInt 0) = Inr (Fin 0)"
  by (simp add: py_float_def float_of_small_int [of 0, simplified])

lemma is_str_cases: "is_str v \<Longrightarrow> \<exists>t. v = PStr t"
  by (cases v) simp_all

lemma is_str_or_none_cases: "is_str_or_none v \<Longrightarrow> v = PNone \<or> (\<exists>t. v = PStr t)"
  by (cases v) simp_all

lemma normalize_product_well_formed:
  assumes "well_formed bi i"
  shows "\<exists>p. normalize_product bi i = Inr p \<and> canonical_shape p \<and> coerced bi i p \<and>
           defaulted i p"
proof -
  obtain a where x: "py_float bi (dict_get_default i ''price'' (PInt 0)) = Inr (Fin a)"
      and a: "0 \<le> a"
    using assms by (auto simp: well_formed_def split: sum.splits pyfloat.splits)
  obtain n where n: "py_int bi (dict_get_default i ''volume_ml'' (PInt 750)) = Inr n"
      and n50: "50 \<le> n"
    using assms by (auto simp: well_formed_def split: sum.splits)
  have strs: "is_str (dict_get i ''title'')" "is_str (dict_get i ''description'')"
      "is_str (dict_get i ''category'')" "is_str (dict_get i ''sku'')"
      "is_str_or_none (dict_get i ''image_url'')"
    using assms by (simp_all add: well_formed_def)
  have dx: "map_of i ''price'' = None \<longrightarrow> a = 0"
    using x by (auto simp: dict_get_default_def py_float_zero)
  have dn: "map_of i ''volume_ml'' = None \<longrightarrow> n = 750"
    using n by (auto simp: dict_get_default_def py_int_def)
  have db: "map_of i ''in_stock'' = None \<longrightarrow>
      py_bool (dict_get_default i ''in_stock'' (PBool True))"
    by (simp add: dict_get_default_def py_bool_def)
  define p where "p =
    [(''title'', dict_get i ''title''), (''description'', dict_get i ''description''),
     (''price'', PFloat (Fin a)), (''category'', dict_get i ''category''),
     (''in_stock'', PBool (py_bool (dict_get_default i ''in_stock'' (PBool True)))),
     (''image_url'', dict_get i ''image_url''), (''sku'', dict_get i ''sku''),
     (''volume_ml'', PInt n)]"
  have gets: "dict_get p ''title'' = dict_get i ''title''"
      "dict_get p ''description'' = dict_get i ''description''"
      "dict_get p ''price'' = PFloat (Fin a)"
      "dict_get p ''category'' = dict_get i ''category''"
      "dict_get p ''in_stock'' = PBool (py_bool (dict_get_default i ''in_stock'' (PBool True)))"
      "dict_get p ''image_url'' = dict_get i ''image_url''"
      "dict_get p ''sku'' = dict_get i ''sku''"
      "dict_get p ''volume_ml'' = PInt n"
    unfolding p_def dict_get_def [of "_ # _"] by simp_all
  have keys: "map fst p = [''title'', ''description'', ''price'', ''category'', ''in_stock'',
                           ''image_url'', ''sku'', ''volume_ml'']"
    by (simp add: p_def)
  have 1: "normalize_product bi i = Inr p"
    by (simp add: normalize_product_def x n p_def)
  have 2: "canonical_shape p"
    unfolding canonical_shape_def gets using keys strs a n50 by simp
  have 3: "coerced bi i p"
    unfolding coerced_def gets using keys x n by simp
  have 4: "defaulted i p"
    unfolding defaulted_def gets using dx dn db by simp
  from 1 2 3 4 show ?thesis by blast
qed

lemma normalize_all_well_formed:
  assumes "list_all (well_formed bi) ds"
  shows "\<exists>ps. normalize_all bi ds = Inr ps \<and> length ps = length ds \<and>
           list_all canonical_shape ps \<and> list_all2 (coerced bi) ds ps \<and>
           list_all2 defaulted ds ps"
  using assms
proof (induction ds)
  case Nil
  then show ?case by simp
next
  case (Cons i ds)
  obtain p where p: "normalize_product bi i = Inr p" "canonical_shape p" "coerced bi i p"
      "defaulted i p"
    using normalize_product_well_formed [of bi i] Cons.prems by auto
  obtain ps where ps: "normalize_all bi ds = Inr ps" "length ps = length ds"
      "list_all canonical_shape ps" "list_all2 (coerced bi) ds ps" "list_all2 defaulted ds ps"
    using Cons by auto
  show ?case by (simp add: p ps)
qed

subsection \<open>A product in canonical shape passes the response model unchanged\<close>

lemma eight_keys:
  assumes "map fst p = [k1, k2, k3, k4, k5, k6, k7, k8]"
  obtains v1 v2 v3 v4 v5 v6 v7 v8 where
    "p = [(k1, v1), (k2, v2), (k3, v3), (k4, v4), (k5, v5), (k6, v6), (k7, v7), (k8, v8)]"
proof -
  from assms obtain x1 x2 x3 x4 x5 x6 x7 x8 where p: "p = [x1, x2, x3, x4, x5, x6, x7, x8]"
      and f: "fst x1 = k1" "fst x2 = k2" "fst x3 = k3" "fst x4 = k4" "fst x5 = k5"
        "fst x6 = k6" "fst x7 = k7" "fst x8 = k8"
    by (auto simp: map_eq_Cons_conv)
  have "p = [(k1, snd x1), (k2, snd x2), (k3, snd x3), (k4, snd x4), (k5, snd x5),
             (k6, snd x6), (k7, snd x7), (k8, snd x8)]"
    unfolding p using f by (simp add: prod_eq_iff)
  then show ?thesis by (rule that)
qed

lemma canonical_shape_validates:
  assumes "canonical_shape p" and "accepts_typed lib"
  shows "\<exists>m. validate_product lib p = Some m \<and> product_dump m = p \<and> is_finite (price m)"
proof -
  have keys: "map fst p = [''title'', ''description'', ''price'', ''category'', ''in_stock'',
                           ''image_url'', ''sku'', ''volume_ml'']"
    using assms(1) by (simp add: canonical_shape_def)
  then obtain v1 v2 v3 v4 v5 v6 v7 v8 where p: "p =
      [(''title'', v1), (''description'', v2), (''price'', v3), (''category'', v4),
       (''in_stock'', v5), (''image_url'', v6), (''sku'', v7), (''volume_ml'', v8)]"
    by (rule eight_keys)
  have maps: "map_of p ''title'' = Some v1" "map_of p ''description'' = Some v2"
      "map_of p ''price'' = Some v3" "map_of p ''category'' = Some v4"
      "map_of p ''in_stock'' = Some v5" "map_of p ''image_url'' = Some v6"
      "map_of p ''sku'' = Some v7" "map_of p ''volume_ml'' = Some v8"
    unfolding p by simp_all
  have shape: "is_str v1" "is_str v2" "is_str v4" "is_str v7" "is_str_or_none v6"
      "case v3 of PFloat (Fin a) \<Rightarrow> 0 \<le> a | _ \<Rightarrow> False"
      "case v5 of PBool b \<Rightarrow> True | _ \<Rightarrow> False"
      "case v8 of PInt n \<Rightarrow> 50 \<le> n | _ \<Rightarrow> False"
    using assms(1) unfolding canonical_shape_def dict_get_def maps by simp_all
  obtain t1 t2 t4 t7 where t: "v1 = PStr t1" "v2 = PStr t2" "v4 = PStr t4" "v7 = PStr t7"
    using shape(1-4) by (meson is_str_cases)
  obtain a where a: "v3 = PFloat (Fin a)" "0 \<le> a"
    using shape(6) by (auto split: pyval.splits pyfloat.splits)
  obtain b where b: "v5 = PBool b"
    using shape(7) by (auto split: pyval.splits)
  obtain n where n: "v8 = PInt n" "50 \<le> n"
    using shape(8) by (auto split: pyval.splits)
  have lib: "\<And>t. as_str lib (PStr t) = Some t" "\<And>x. as_float lib (PFloat x) = Some x"
      "\<And>n. as_int lib (PInt n) = Some n" "\<And>b. as_bool lib (PBool b) = Some b"
    using assms(2) by (simp_all add: accepts_typed_def)
  obtain u where u: "optional_str lib v6 = Some u" "opt_str u = v6"
    using is_str_or_none_cases [OF shape(5)]
    by (auto simp: optional_str_def opt_str_def lib)
  define m where "m = \<lparr>AroniaProduct.title = t1, description = t2, price = Fin a,
    category = t4, in_stock = b, image_url = u, sku = t7, volume_ml = n\<rparr>"
  have "validate_product lib p = Some m"
    unfolding validate_product_def with_default_def maps
    by (simp add: t a b n u lib m_def)
  moreover have "product_dump m = p"
    by (simp add: product_dump_def m_def p t a b n u)
  moreover have "is_finite (price m)"
    by (simp add: m_def)
  ultimately show ?thesis by blast
qed

lemma response_model_check:
  assumes "list_all canonical_shape ps" and "accepts_typed lib"
  shows "\<exists>ms. those (map (validate_product lib) ps) = Some ms \<and> map product_dump ms = ps \<and>
           list_all (\<lambda>m. is_finite (price m)) ms"
  using assms(1)
proof (induction ps)
  case Nil
  then show ?case by simp
next
  case (Cons p ps)
  obtain m where m: "validate_product lib p = Some m" "product_dump m = p"
      "is_finite (price m)"
    using canonical_shape_validates [of p lib] Cons.prems assms(2) by auto
  obtain ms where ms: "those (map (validate_product lib) ps) = Some ms"
      "map product_dump ms = ps" "list_all (\<lambda>m. is_finite (price m)) ms"
    using Cons by auto
  show ?case by (simp add: m ms)
qed

lemma get_products_canonical:
  assumes "list_products bi db s = (Inr ps, s')" and "list_all canonical_shape ps"
    and "accepts_typed lib"
  shows "get_products lib bi db s = (Inr ps, s')"
proof -
  obtain ms where ms: "those (map (validate_product lib) ps) = Some ms"
      "map product_dump ms = ps" "list_all (\<lambda>m. is_finite (price m)) ms"
    using response_model_check [OF assms(2,3)] by blast
  show ?thesis by (simp add: get_products_def assms(1) ms)
qed

lemma default_product_canonical: "canonical_shape (product_dump AroniaProduct_default)"
  by (simp add: canonical_shape_def product_dump_def AroniaProduct_default_def dict_get_def
      opt_str_def float_12_90)


section \<open>The claims about the catalog\<close>

lemma default_product_fields:
  "dict_get (product_dump AroniaProduct_default) ''sku'' = PStr ''ARONIA-750ML''"
  "dict_get (product_dump AroniaProduct_default) ''price'' = PFloat (float_lit (129 / 10))"
  "dict_get (product_dump AroniaProduct_default) ''volume_ml'' = PInt 750"
  "dict_get (product_dump AroniaProduct_default) ''in_stock'' = PBool True"
  by (simp_all add: product_dump_def AroniaProduct_default_def dict_get_def)

lemma stored_documents_query:
  "get_documents memory_store ''aroniaproduct'' [] stored_state =
     (Inr stored_documents, stored_state)"
  by (simp add: memory_store_def stored_state_def stored_documents_def)

lemma stored_documents_well_formed: "list_all (well_formed no_parse) stored_documents"
  by (simp add: stored_documents_def well_formed_def dict_get_default_def dict_get_def
      py_float_def py_int_def trunc_def float_of_small_int [of 13, simplified]
      float_of_small_int [of 0, simplified])

lemma stored_documents_normalized:
  "normalize_all no_parse stored_documents =
     Inr [[(''title'', PStr ''Aronia Pure''), (''description'', PStr ''Cold-pressed''),
           (''price'', PFloat (Fin 13)), (''category'', PStr ''Beverages''),
           (''in_stock'', PBool True), (''image_url'', PNone),
           (''sku'', PStr ''ARONIA-750ML''), (''volume_ml'', PInt 750)],
          [(''title'', PStr ''Aronia Shot''), (''description'', PStr ''A small bottle''),
           (''price'', PFloat (Fin 5)), (''category'', PStr ''Beverages''),
           (''in_stock'', PBool False), (''image_url'', PNone),
           (''sku'', PStr ''ARONIA-SHOT''), (''volume_ml'', PInt 250)]]"
  by (simp add: stored_documents_def normalize_product_def dict_get_default_def dict_get_def
      py_float_def py_int_def py_bool_def trunc_def float_of_small_int [of 13, simplified])

text \<open>
  Claim C6. When the query gives no document, because the collection is empty or
  because the query raised, \<open>list_products\<close> returns exactly one product, the default one:
  sku \<open>ARONIA-750ML\<close>, price 12.90, volume 750 ml, in stock. It attempts the insert of
  the default (the final state is the insert's) and returns the same sequence whether
  the insert succeeds or raises: nothing is assumed of the store's \<open>create_document\<close>.
\<close>

theorem list_products_seeds_default:
  assumes "get_documents db ''aroniaproduct'' [] s = (r, s1)" and "r = Inr [] \<or> r = Inl e"
  shows "list_products bi db s =
           (Inr [product_dump AroniaProduct_default],
            snd (create_document db ''aroniaproduct'' (product_dump AroniaProduct_default) s1)) \<and>
         dict_get (product_dump AroniaProduct_default) ''sku'' = PStr ''ARONIA-750ML'' \<and>
         dict_get (product_dump AroniaProduct_default) ''price'' = PFloat (float_lit (129 / 10)) \<and>
         dict_get (product_dump AroniaProduct_default) ''volume_ml'' = PInt 750 \<and>
         dict_get (product_dump AroniaProduct_default) ''in_stock'' = PBool True"
  using list_products_empty [OF assms] by (simp add: default_product_fields)

theorem list_products_seeds_default_witness:
  "fst (list_products no_parse memory_store []) = Inr [product_dump AroniaProduct_default] \<and>
   snd (list_products no_parse memory_store []) =
     [(''aroniaproduct'', product_dump AroniaProduct_default)] \<and>
   list_products no_parse failing_store () = (Inr [product_dump AroniaProduct_default], ())"
proof -
  have 1: "get_documents memory_store ''aroniaproduct'' [] [] = (Inr [], [])"
    by (simp add: memory_store_def)
  have 2: "get_documents failing_store ''aroniaproduct'' [] () =
             (Inl (Exception ''store unreachable''), ())"
    by (simp add: failing_store_def)
  have 3: "snd (create_document memory_store ''aroniaproduct''
                  (product_dump AroniaProduct_default) []) =
             [(''aroniaproduct'', product_dump AroniaProduct_default)]"
    by (simp add: memory_store_def)
  show ?thesis
    using list_products_seeds_default [of memory_store "[]" "Inr []" "[]", OF 1]
      list_products_seeds_default [of failing_store "()" "Inl (Exception ''store unreachable'')"
        "()" "Exception ''store unreachable''", OF 2] 3
    by simp
qed

text \<open>
  Claim C3 does not hold for every store state: when the query succeeds with a document
  whose price is null, \<open>float(None)\<close> raises \<open>TypeError\<close> in the handler, outside any
  \<open>try\<close>, and \<open>GET /api/products\<close> fails.
\<close>

theorem get_products_failure_counterexample:
  "fst (get_products strict_validators no_parse memory_store
          [(''aroniaproduct'', null_price_document)]) = Inl TypeError"
  by (simp add: get_products_def list_products_def memory_store_def null_price_document_def
      normalize_product_def dict_get_default_def py_float_def)

text \<open>
  Claim C3, amended. For every store state in which the query fails, finds no document
  or finds well-formed documents only, \<open>GET /api/products\<close> returns a sequence of at
  least one product with status 200: the handler's result passes the response model
  and is encoded, every product in canonical shape. A failure of the query is
  swallowed and the result treated as empty: the endpoint returns the default product
  alone, as it does when the query finds nothing. (The validation library is taken to
  accept values that have the declared type.)
\<close>

theorem get_products_soft_fails:
  assumes "accepts_typed lib" and "get_documents db ''aroniaproduct'' [] s = (r, s1)"
    and "\<forall>ds. r = Inr ds \<longrightarrow> list_all (well_formed bi) ds"
  shows "\<exists>ps. fst (get_products lib bi db s) = Inr ps \<and> ps \<noteq> [] \<and>
           list_all canonical_shape ps \<and>
           (r = Inr [] \<or> (\<exists>e. r = Inl e) \<longrightarrow> ps = [product_dump AroniaProduct_default])"
proof -
  have dflt: "fst (get_products lib bi db s) = Inr [product_dump AroniaProduct_default]"
    if "r = Inr [] \<or> r = Inl e" for e
  proof -
    have "list_products bi db s =
        (Inr [product_dump AroniaProduct_default],
         snd (create_document db ''aroniaproduct'' (product_dump AroniaProduct_default) s1))"
      using assms(2) that by (rule list_products_empty)
    moreover have "list_all canonical_shape [product_dump AroniaProduct_default]"
      by (simp add: default_product_canonical)
    ultimately have "get_products lib bi db s =
        (Inr [product_dump AroniaProduct_default],
         snd (create_document db ''aroniaproduct'' (product_dump AroniaProduct_default) s1))"
      using assms(1) by (rule get_products_canonical)
    then show ?thesis by simp
  qed
  show ?thesis
  proof (cases r)
    case (Inl e)
    then show ?thesis using dflt [of e] by (simp add: default_product_canonical)
  next
    case (Inr ds)
    show ?thesis
    proof (cases "ds = []")
      case True
      then show ?thesis
        using dflt [of "Exception []"] Inr by (simp add: default_product_canonical)
    next
      case False
      obtain ps where ps: "normalize_all bi ds = Inr ps" "length ps = length ds"
          "list_all canonical_shape ps"
        using normalize_all_well_formed [of bi ds] assms(3) Inr by blast
      have "list_products bi db s = (Inr ps, s1)"
        using list_products_documents [of db s ds s1 bi] assms(2) Inr False ps(1) by simp
      then have "get_products lib bi db s = (Inr ps, s1)"
        using ps(3) assms(1) by (rule get_products_canonical)
      then show ?thesis using ps(2,3) False Inr by auto
    qed
  qed
qed

theorem get_products_soft_fails_witness:
  "fst (get_products strict_validators no_parse failing_store ()) =
     Inr [product_dump AroniaProduct_default] \<and>
   (\<exists>ps. fst (get_products strict_validators no_parse memory_store stored_state) = Inr ps \<and>
      ps \<noteq> [] \<and> list_all canonical_shape ps)"
proof -
  have 1: "get_documents failing_store ''aroniaproduct'' [] () =
             (Inl (Exception ''store unreachable''), ())"
    by (simp add: failing_store_def)
  have 2: "\<forall>ds. (Inl (Exception ''store unreachable'') :: pyexn + pydict list) = Inr ds \<longrightarrow>
             list_all (well_formed no_parse) ds"
    by simp
  have 3: "\<forall>ds. (Inr stored_documents :: pyexn + pydict list) = Inr ds \<longrightarrow>
             list_all (well_formed no_parse) ds"
    using stored_documents_well_formed by simp
  have "fst (get_products strict_validators no_parse failing_store ()) =
          Inr [product_dump AroniaProduct_default]"
    using get_products_soft_fails [OF strict_validators_typed 1 2] by auto
  moreover have "\<exists>ps. fst (get_products strict_validators no_parse memory_store stored_state) =
      Inr ps \<and> ps \<noteq> [] \<and> list_all canonical_shape ps"
    using get_products_soft_fails [OF strict_validators_typed stored_documents_query 3] by blast
  ultimately show ?thesis by simp
qed

text \<open>
  Claim C7 does not hold for every non-empty result of the query: for one document
  whose volume is null \<open>GET /api/products\<close> returns no product, \<open>int(None)\<close> raises
  \<open>TypeError\<close> in the handler.
\<close>

theorem get_products_normalizes_counterexample:
  "fst (get_products strict_validators no_parse memory_store
          [(''aroniaproduct'', null_volume_document)]) = Inl TypeError"
  by (simp add: get_products_def list_products_def memory_store_def null_volume_document_def
      normalize_product_def dict_get_default_def py_float_def py_int_def
      float_of_small_int [of 13, simplified])

text \<open>
  Claim C7, amended. When the query returns a non-empty sequence of N well-formed
  documents, \<open>GET /api/products\<close> returns N products with status 200, the i-th being the
  i-th document in canonical shape (the eight fields with the types and bounds of
  \<open>AroniaProduct\<close>): coerced (price a float, volume an int, stock flag a bool, the other
  fields the document's) and defaulted (0, true, 750 for the absent ones). The store is
  left as the query left it: no insert is made. (The validation library is taken to
  accept values that have the declared type.)
\<close>

theorem get_products_normalizes:
  assumes "accepts_typed lib" and "get_documents db ''aroniaproduct'' [] s = (Inr ds, s1)"
    and "ds \<noteq> []" and "list_all (well_formed bi) ds"
  shows "\<exists>ps. get_products lib bi db s = (Inr ps, s1) \<and> length ps = length ds \<and>
           list_all canonical_shape ps \<and> list_all2 (coerced bi) ds ps \<and>
           list_all2 defaulted ds ps"
proof -
  obtain ps where ps: "normalize_all bi ds = Inr ps" "length ps = length ds"
      "list_all canonical_shape ps" "list_all2 (coerced bi) ds ps" "list_all2 defaulted ds ps"
    using normalize_all_well_formed [OF assms(4)] by blast
  have "list_products bi db s = (Inr ps, s1)"
    using list_products_documents [OF assms(2,3), of bi] ps(1) by simp
  then have "get_products lib bi db s = (Inr ps, s1)"
    using ps(3) assms(1) by (rule get_products_canonical)
  then show ?thesis using ps by blast
qed

theorem get_products_normalizes_witness:
  "\<exists>ps. get_products strict_validators no_parse memory_store stored_state =
           (Inr ps, stored_state) \<and>
     length ps = length stored_documents \<and> list_all canonical_shape ps \<and>
     list_all2 (coerced no_parse) stored_documents ps \<and>
     list_all2 defaulted stored_documents ps"
proof -
  have ne: "stored_documents \<noteq> []"
    by (simp add: stored_documents_def)
  show ?thesis
    using get_products_normalizes
      [OF strict_validators_typed stored_documents_query ne stored_documents_well_formed] .
qed

end
